theory Spec2Isabelle
  imports Main "HOL-Library.Word" "HOL-Library.Signed_Division" "HOL-Library.Monad_Syntax"
begin

section \<open>The fake remote-execution server of go/pkg/fakes/server.go\<close>

text \<open>
  The theory embeds \<^verbatim>\<open>go/pkg/fakes/server.go\<close>: the \<^verbatim>\<open>Server\<close> with its three
  components, \<^verbatim>\<open>NewServer\<close>, \<^verbatim>\<open>Server.Clear\<close>, the six result-shaping options with
  their \<^verbatim>\<open>Apply\<close> methods, and \<^verbatim>\<open>TestEnv.Set\<close>. \<^verbatim>\<open>NewTestClient\<close> and
  \<^verbatim>\<open>NewTestEnv\<close>, which dial the server and make a temporary directory, are left
  out.

  The Go code works on pointers: a \<^verbatim>\<open>Server\<close> holds a \<^verbatim>\<open>*Exec\<close>, a \<^verbatim>\<open>*CAS\<close> and an
  \<^verbatim>\<open>*ActionCache\<close>, and the \<^verbatim>\<open>Exec\<close> holds pointers to the last two again. The
  objects therefore live in an explicit store, one list per object type; a pointer
  is \<open>None\<close> (nil) or \<open>Some a\<close>, the index \<open>a\<close> of the object in its list. Reading or
  writing through nil, or through an index outside the list, is the nil-pointer
  panic of Go: the operation yields \<open>None\<close>. Allocation appends to the list, so a
  new object has an address that no pointer of a well-formed store holds.
\<close>

subsection \<open>Plain data\<close>

type_synonym bytes = string

type_synonym ptr = "nat option"

text \<open>
  Modelled from the spec: \<^verbatim>\<open>digest.Digest\<close> (package \<^verbatim>\<open>go/digest\<close>, not part of the
  file) is the pair of a hash and a non-negative size; two digests are equal iff
  both fields are equal. \<^verbatim>\<open>Digest.ToProto\<close> yields the wire message with the same
  two fields, which is represented by the same record behind a pointer.
\<close>

record Digest =
  Hash :: string
  Size :: nat

text \<open>
  Modelled from the spec: \<^verbatim>\<open>digest.Empty\<close> is the well-known digest of the empty
  byte sequence (its hash is the SHA-256 of no input).
\<close>

definition digest_Empty :: Digest where
  "digest_Empty =
     \<lparr>Hash = ''e3b0c44298fc1c149afbf4c8996fb92427ae41e4649b934ca495991b7852b855'', Size = 0\<rparr>"

definition ToProto :: "Digest \<Rightarrow> Digest option" where
  "ToProto dg = Some dg"

text \<open>The gRPC status codes (\<^verbatim>\<open>google.golang.org/grpc/codes\<close>) and \<^verbatim>\<open>status.Status\<close>.\<close>

datatype Code =
  OK | Canceled | Unknown | InvalidArgument | DeadlineExceeded | NotFound
  | AlreadyExists | PermissionDenied | ResourceExhausted | FailedPrecondition
  | Aborted | OutOfRange | Unimplemented | Internal | Unavailable | DataLoss
  | Unauthenticated

record Status =
  Code :: Code
  Message :: string

definition status_New :: "Code \<Rightarrow> string \<Rightarrow> Status option" where
  "status_New c msg = Some \<lparr>Code = c, Message = msg\<rparr>"

text \<open>
  \<^verbatim>\<open>durpb.Duration\<close> and \<^verbatim>\<open>ptypes.DurationProto\<close>: a \<^verbatim>\<open>time.Duration\<close> is a signed
  64-bit count of nanoseconds, split into whole seconds and the remaining
  nanoseconds (Go's \<^verbatim>\<open>/\<close> truncates towards zero, which is \<open>sdiv\<close> on the signed
  value of the word).
\<close>

record Duration =
  Seconds :: "64 word"
  Nanos :: "32 word"

definition DurationProto :: "64 word \<Rightarrow> Duration option" where
  "DurationProto d =
     (let nanos = sint d;
          secs = nanos sdiv 1000000000;
          nanos = nanos - secs * 1000000000
      in Some \<lparr>Seconds = word_of_int secs, Nanos = word_of_int nanos\<rparr>)"

text \<open>The wire messages \<^verbatim>\<open>repb.OutputFile\<close>, \<^verbatim>\<open>repb.ActionResult\<close> and \<^verbatim>\<open>repb.Action\<close>,
  with the fields the file reads or writes. A message field of pointer or slice type
  is nil (\<open>None\<close>, \<open>[]\<close>) until it is set.\<close>

record OutputFilePb =
  Path :: string
  Digest :: "Digest option"

record ActionResult =
  ExitCode :: "32 word"
  OutputFiles :: "OutputFilePb list"
  StdoutDigest :: "Digest option"
  StderrDigest :: "Digest option"
  StdoutRaw :: bytes
  StderrRaw :: bytes

record Action =
  CommandDigest :: "Digest option"
  InputRootDigest :: "Digest option"
  Timeout :: "Duration option"
  DoNotCache :: bool

text \<open>
  \<^verbatim>\<open>command.Command\<close>, \<^verbatim>\<open>command.ExecutionOptions\<close>, \<^verbatim>\<open>command.Result\<close> and
  \<^verbatim>\<open>command.ResultStatus\<close> are declared in package \<^verbatim>\<open>go/pkg/command\<close>. The records
  carry the fields \<^verbatim>\<open>Set\<close> reads; every other field of a \<^verbatim>\<open>Command\<close> is in the
  extension part of the record, and the input specification and the error value are
  type parameters. \<^verbatim>\<open>Command.Timeout\<close> is a \<^verbatim>\<open>time.Duration\<close> (a signed 64-bit
  integer, compared with \<open><s\<close>) and \<^verbatim>\<open>Result.ExitCode\<close> an \<^verbatim>\<open>int\<close> (64 bits).
  Field names that several records share are written with the record's name in
  front (\<open>Command.Timeout\<close>, \<open>Action.Timeout\<close>).
\<close>

record 'spec Command =
  ExecRoot :: string
  InputSpec :: 'spec
  Timeout :: "64 word"

record ExecutionOptions =
  DoNotCache :: bool

text \<open>
  Modelled from the spec: the result status is one of Success, CacheHit,
  TimeoutError, RemoteError, LocalError and InterruptedError; the constructors have
  the names the file uses. \<^verbatim>\<open>ResultStatus\<close> is an integer type in Go, so any other
  value is possible as well: \<open>OtherResultStatus\<close>.
\<close>

datatype ResultStatus =
  SuccessResultStatus | CacheHitResultStatus | TimeoutResultStatus
  | RemoteErrorResultStatus | LocalErrorResultStatus | InterruptedResultStatus
  | OtherResultStatus nat

record 'err Result =
  Status :: ResultStatus
  ExitCode :: "64 word"
  Err :: 'err

subsection \<open>The store and the objects in it\<close>

text \<open>
  Modelled from the spec: the \<^verbatim>\<open>CAS\<close> struct is declared in \<^verbatim>\<open>cas.go\<close>, which is
  not part of the file. A CAS is "a store where objects are retrieved solely by their
  digest": a finite map from digests to contents.
\<close>

record CAS =
  blobs :: "Digest \<rightharpoonup> bytes"

text \<open>
  Modelled from the spec: the \<^verbatim>\<open>ActionCache\<close> struct is declared outside the file
  as well. An action cache is a "mapping from Action digest to a previously observed
  Result's wire representation (ActionResult)".
\<close>

record ActionCache =
  results :: "Digest \<rightharpoonup> ActionResult"

text \<open>
  Modelled from the spec: the \<^verbatim>\<open>Exec\<close> struct is declared in \<^verbatim>\<open>exec.go\<close>, which is
  not part of the file. It has the four exported fields that \<^verbatim>\<open>server.go\<close> writes,
  and it is built by \<^verbatim>\<open>NewExec(ac, cas)\<close> over an action cache and a CAS, kept here
  as the pointers \<open>ac_ptr\<close> and \<open>cas_ptr\<close>.
\<close>

record Exec =
  ac_ptr :: ptr
  cas_ptr :: ptr
  ActionResult :: "ActionResult option"
  Status :: "Status option"
  Cached :: bool
  OutputBlobs :: "bytes list"

text \<open>
  A \<^verbatim>\<open>net.Listener\<close> and a \<^verbatim>\<open>*grpc.Server\<close>: the address the listener is bound
  to and whether it was closed; the services registered with the gRPC server, the
  listener it serves on and whether it was stopped.
\<close>

record Listener =
  Addr :: string
  closed :: bool

datatype Service =
  ByteStreamServer ptr
  | ContentAddressableStorageServer ptr
  | ActionCacheServer ptr
  | ExecutionServer ptr

record GrpcServer =
  services :: "Service list"
  serving :: "Listener option"
  stopped :: bool

record Server =
  Exec :: ptr
  CAS :: ptr
  ActionCache :: ptr
  listener :: "Listener option"
  srv :: "GrpcServer option"

record Store =
  CASs :: "CAS list"
  ActionCaches :: "ActionCache list"
  Execs :: "Exec list"
  Servers :: "Server list"

definition deref :: "'a list \<Rightarrow> ptr \<Rightarrow> 'a option" where
  "deref xs p = (case p of None \<Rightarrow> None
                 | Some a \<Rightarrow> if a < length xs then Some (xs ! a) else None)"

definition put_at :: "'a list \<Rightarrow> ptr \<Rightarrow> 'a \<Rightarrow> 'a list" where
  "put_at xs p v = (case p of None \<Rightarrow> xs | Some a \<Rightarrow> xs[a := v])"

definition empty_Store :: Store where
  "empty_Store = \<lparr>CASs = [], ActionCaches = [], Execs = [], Servers = []\<rparr>"

subsection \<open>Functions of other packages\<close>

text \<open>
  \<^verbatim>\<open>Set\<close> calls into packages \<^verbatim>\<open>command\<close>, \<^verbatim>\<open>client\<close>, \<^verbatim>\<open>digest\<close> and gRPC's
  \<^verbatim>\<open>status\<close>. What these functions compute is not fixed here: they are
  parameters, collected in one record, and every theorem holds for all of them.
  \<^item> \<open>FillDefaultFieldValues\<close>: the command after \<^verbatim>\<open>cmd.FillDefaultFieldValues()\<close>,
    which mutates the command in place;
  \<^item> \<open>BuildTreeFromInputs\<close> and \<open>PackageTree\<close>: the file tree read from the
    file system, or the text of the error; of the three results of \<^verbatim>\<open>PackageTree\<close>
    only the root digest and the error are kept, \<^verbatim>\<open>Set\<close> drops the blobs;
  \<^item> \<open>ToREProto\<close> and \<open>TestNewFromMessage\<close>: the wire message of a command and
    the digest of a message;
  \<^item> \<open>FromError\<close>: \<^verbatim>\<open>status.FromError\<close>, a status pointer and the flag \<^verbatim>\<open>ok\<close>;
  \<^item> \<open>digestOf\<close>: the digest of a byte sequence, which the CAS uses as key.
\<close>

datatype 'pb Message = CommandMsg 'pb | ActionMsg Action

record ('spec, 'z, 'ft, 'pb, 'err) Deps =
  FillDefaultFieldValues :: "('spec, 'z) Command_scheme \<Rightarrow> ('spec, 'z) Command_scheme"
  BuildTreeFromInputs :: "string \<Rightarrow> 'spec \<Rightarrow> string + 'ft"
  PackageTree :: "'ft \<Rightarrow> string + Digest"
  ToREProto :: "('spec, 'z) Command_scheme \<Rightarrow> 'pb"
  TestNewFromMessage :: "'pb Message \<Rightarrow> Digest"
  FromError :: "'err \<Rightarrow> Status option \<times> bool"
  digestOf :: "bytes \<Rightarrow> Digest"

subsection \<open>The components: CAS, ActionCache, Exec\<close>

text \<open>
  The constructors and methods of the three components are called in
  \<^verbatim>\<open>server.go\<close> and defined in other files of the package, which are missing from
  the sources. Each is modelled from what the spec says of the fake.
\<close>

text \<open>
  Modelled from the spec: \<^verbatim>\<open>NewCAS\<close> is missing from the sources. The spec asks for
  "an explicitly constructed, explicitly owned instance", "never a process-wide
  singleton": each call allocates a new CAS, which holds nothing yet.
\<close>

definition NewCAS :: "Store \<Rightarrow> ptr \<times> Store" where
  "NewCAS st = (Some (length (CASs st)), st\<lparr>CASs := CASs st @ [\<lparr>blobs = Map.empty\<rparr>]\<rparr>)"

text \<open>
  Modelled from the spec: \<^verbatim>\<open>NewActionCache\<close> is missing from the sources. As for
  \<^verbatim>\<open>NewCAS\<close>, each call allocates a new action cache without entries.
\<close>

definition NewActionCache :: "Store \<Rightarrow> ptr \<times> Store" where
  "NewActionCache st =
     (Some (length (ActionCaches st)),
      st\<lparr>ActionCaches := ActionCaches st @ [\<lparr>results = Map.empty\<rparr>]\<rparr>)"

text \<open>
  Modelled from the spec: \<^verbatim>\<open>NewExec\<close> is missing from the sources. Each call
  allocates a new \<^verbatim>\<open>Exec\<close> that has no result, no status, no cache-hit flag and no
  output blobs configured, and that keeps the two pointers \<^verbatim>\<open>NewExec(ac, cas)\<close> is
  given.
\<close>

definition NewExec :: "ptr \<Rightarrow> ptr \<Rightarrow> Store \<Rightarrow> ptr \<times> Store" where
  "NewExec ac cas st =
     (Some (length (Execs st)),
      st\<lparr>Execs := Execs st @
        [\<lparr>ac_ptr = ac, cas_ptr = cas, ActionResult = None, Status = None,
          Cached = False, OutputBlobs = []\<rparr>]\<rparr>)"

text \<open>
  Modelled from the spec: \<^verbatim>\<open>CAS.Put\<close> is missing from the sources. The CAS is "a
  store where objects are retrieved solely by their digest" and a blob satisfies
  "digest(content) == digest": \<^verbatim>\<open>Put\<close> stores the bytes under their digest and
  returns that digest.
\<close>

definition CAS_Put :: "(bytes \<Rightarrow> Digest) \<Rightarrow> ptr \<Rightarrow> bytes \<Rightarrow> Store \<Rightarrow> (Digest \<times> Store) option" where
  "CAS_Put dgOf f data st = do {
     c \<leftarrow> deref (CASs st) f;
     let d = dgOf data;
     Some (d, st\<lparr>CASs := put_at (CASs st) f (c\<lparr>blobs := (blobs c)(d \<mapsto> data)\<rparr>)\<rparr>)
   }"

text \<open>
  Modelled from the spec: \<^verbatim>\<open>ActionCache.Put\<close> is missing from the sources. An action
  cache entry is a "mapping from Action digest to a previously observed Result's
  wire representation (ActionResult)", and "last-write-wins is acceptable".
\<close>

definition ActionCache_Put :: "ptr \<Rightarrow> Digest \<Rightarrow> ActionResult \<Rightarrow> Store \<Rightarrow> Store option" where
  "ActionCache_Put f d res st = do {
     c \<leftarrow> deref (ActionCaches st) f;
     Some (st\<lparr>ActionCaches := put_at (ActionCaches st) f (c\<lparr>results := (results c)(d \<mapsto> res)\<rparr>)\<rparr>)
   }"

text \<open>
  Modelled from the spec: \<^verbatim>\<open>CAS.Clear\<close> is missing from the sources. The fake has a
  hook to "clear all recorded state between tests": a cleared CAS holds no entry.
\<close>

definition CAS_Clear :: "ptr \<Rightarrow> Store \<Rightarrow> Store option" where
  "CAS_Clear f st = do {
     c \<leftarrow> deref (CASs st) f;
     Some (st\<lparr>CASs := put_at (CASs st) f (c\<lparr>blobs := Map.empty\<rparr>)\<rparr>)
   }"

text \<open>
  Modelled from the spec: \<^verbatim>\<open>ActionCache.Clear\<close> is missing from the sources. A
  cleared action cache holds no entry.
\<close>

definition ActionCache_Clear :: "ptr \<Rightarrow> Store \<Rightarrow> Store option" where
  "ActionCache_Clear f st = do {
     c \<leftarrow> deref (ActionCaches st) f;
     Some (st\<lparr>ActionCaches := put_at (ActionCaches st) f (c\<lparr>results := Map.empty\<rparr>)\<rparr>)
   }"

text \<open>
  Modelled from the spec: \<^verbatim>\<open>Exec.Clear\<close> is missing from the sources. A cleared
  \<^verbatim>\<open>Exec\<close> has no result, no status, no cache-hit flag and no output blobs; it stays
  connected to its action cache and CAS.
\<close>

definition Exec_Clear :: "ptr \<Rightarrow> Store \<Rightarrow> Store option" where
  "Exec_Clear f st = do {
     ex \<leftarrow> deref (Execs st) f;
     Some (st\<lparr>Execs := put_at (Execs st) f
       (ex\<lparr>ActionResult := None, Exec.Status := None, Cached := False, OutputBlobs := []\<rparr>)\<rparr>)
   }"

subsection \<open>The server\<close>

text \<open>
  \<^verbatim>\<open>NewServer\<close>. The result of \<^verbatim>\<open>net.Listen("tcp", ":0")\<close> comes from the
  operating system and is an argument: the text of the error, or the listener.
  When listening fails the function returns \<^verbatim>\<open>nil, err\<close>; the objects it has
  allocated stay in the store, unreachable. \<^verbatim>\<open>go s.srv.Serve(s.listener)\<close> starts
  serving on the listener.
\<close>

definition NewServer :: "string + Listener \<Rightarrow> Store \<Rightarrow> (string + ptr) \<times> Store" where
  "NewServer listen st =
     (let (cas, st) = NewCAS st;
          (ac, st) = NewActionCache st;
          (ex, st) = NewExec ac cas st;
          s = Some (length (Servers st));
          sv = \<lparr>Exec = ex, CAS = cas, ActionCache = ac, listener = None, srv = None\<rparr>;
          st = st\<lparr>Servers := Servers st @ [sv]\<rparr>
      in case listen of
           Inl err \<Rightarrow> (Inl err, st)
         | Inr l \<Rightarrow>
             let sv = sv\<lparr>listener := Some l\<rparr>;
                 g = \<lparr>services = [], serving = None, stopped = False\<rparr>;
                 g = g\<lparr>services := services g @ [ByteStreamServer (CAS sv)]\<rparr>;
                 g = g\<lparr>services := services g @ [ContentAddressableStorageServer (CAS sv)]\<rparr>;
                 g = g\<lparr>services := services g @ [ActionCacheServer (ActionCache sv)]\<rparr>;
                 g = g\<lparr>services := services g @ [ExecutionServer (Exec sv)]\<rparr>;
                 g = g\<lparr>serving := listener sv\<rparr>;
                 sv = sv\<lparr>srv := Some g\<rparr>
             in (Inr s, st\<lparr>Servers := put_at (Servers st) s sv\<rparr>))"

text \<open>\<^verbatim>\<open>Server.Clear\<close>: the three calls, each through the pointer the server holds.\<close>

definition Server_Clear :: "ptr \<Rightarrow> Store \<Rightarrow> Store option" where
  "Server_Clear s st = do {
     sv \<leftarrow> deref (Servers st) s;
     st \<leftarrow> CAS_Clear (CAS sv) st;
     sv \<leftarrow> deref (Servers st) s;
     st \<leftarrow> ActionCache_Clear (ActionCache sv) st;
     sv \<leftarrow> deref (Servers st) s;
     Exec_Clear (Exec sv) st
   }"

text \<open>\<^verbatim>\<open>Server.Stop\<close> closes the listener and stops the gRPC server.\<close>

definition Server_Stop :: "ptr \<Rightarrow> Store \<Rightarrow> Store option" where
  "Server_Stop s st = do {
     sv \<leftarrow> deref (Servers st) s;
     l \<leftarrow> listener sv;
     let sv = sv\<lparr>listener := Some (l\<lparr>closed := True\<rparr>)\<rparr>;
     g \<leftarrow> srv sv;
     let sv = sv\<lparr>srv := Some (g\<lparr>stopped := True\<rparr>)\<rparr>;
     Some (st\<lparr>Servers := put_at (Servers st) s sv\<rparr>)
   }"

subsection \<open>The options\<close>

text \<open>
  The interface \<^verbatim>\<open>option\<close> and the six types of the file that implement it:
  \<^verbatim>\<open>OutputFile{Path, Contents}\<close> and the five named string and bool types. An
  \<^verbatim>\<open>Apply\<close> method gets the \<^verbatim>\<open>ActionResult\<close> under construction and the pointer to
  the server; it returns the changed \<^verbatim>\<open>ActionResult\<close> and the changed store, or
  \<open>None\<close> when it dereferences nil. \<^verbatim>\<open>[]byte(x)\<close> of a Go string is the same
  sequence of bytes.

  An interface of Go is open: any type with this \<^verbatim>\<open>Apply\<close> method can be passed to
  \<^verbatim>\<open>Set\<close>. The datatype has the six options that the file declares, and what is
  proved of "every option" is proved of these; a nil interface value and a nil
  \<^verbatim>\<open>*OutputFile\<close> are not among them.
\<close>

datatype option_iface =
  OutputFile string string
  | StdOut string
  | StdOutRaw string
  | StdErr string
  | StdErrRaw string
  | ExecutionCacheHit bool

definition OutputFile_Apply ::
  "(bytes \<Rightarrow> Digest) \<Rightarrow> string \<Rightarrow> string \<Rightarrow> ActionResult \<Rightarrow> ptr \<Rightarrow> Store
     \<Rightarrow> (ActionResult \<times> Store) option" where
  "OutputFile_Apply dgOf path contents ar s st = do {
     let bytes = contents;
     sv \<leftarrow> deref (Servers st) s;
     ex \<leftarrow> deref (Execs st) (Exec sv);
     let st = st\<lparr>Execs := put_at (Execs st) (Exec sv) (ex\<lparr>OutputBlobs := OutputBlobs ex @ [bytes]\<rparr>)\<rparr>;
     sv \<leftarrow> deref (Servers st) s;
     (dg, st) \<leftarrow> CAS_Put dgOf (CAS sv) bytes st;
     Some (ar\<lparr>OutputFiles := OutputFiles ar @ [\<lparr>Path = path, Digest = ToProto dg\<rparr>]\<rparr>, st)
   }"

definition StdOut_Apply ::
  "(bytes \<Rightarrow> Digest) \<Rightarrow> string \<Rightarrow> ActionResult \<Rightarrow> ptr \<Rightarrow> Store
     \<Rightarrow> (ActionResult \<times> Store) option" where
  "StdOut_Apply dgOf out ar s st = do {
     let bytes = out;
     sv \<leftarrow> deref (Servers st) s;
     ex \<leftarrow> deref (Execs st) (Exec sv);
     let st = st\<lparr>Execs := put_at (Execs st) (Exec sv) (ex\<lparr>OutputBlobs := OutputBlobs ex @ [bytes]\<rparr>)\<rparr>;
     sv \<leftarrow> deref (Servers st) s;
     (dg, st) \<leftarrow> CAS_Put dgOf (CAS sv) bytes st;
     Some (ar\<lparr>StdoutDigest := ToProto dg\<rparr>, st)
   }"

definition StdOutRaw_Apply ::
  "string \<Rightarrow> ActionResult \<Rightarrow> ptr \<Rightarrow> Store \<Rightarrow> (ActionResult \<times> Store) option" where
  "StdOutRaw_Apply out ar s st = Some (ar\<lparr>StdoutRaw := out\<rparr>, st)"

definition StdErr_Apply ::
  "(bytes \<Rightarrow> Digest) \<Rightarrow> string \<Rightarrow> ActionResult \<Rightarrow> ptr \<Rightarrow> Store
     \<Rightarrow> (ActionResult \<times> Store) option" where
  "StdErr_Apply dgOf err ar s st = do {
     let bytes = err;
     sv \<leftarrow> deref (Servers st) s;
     ex \<leftarrow> deref (Execs st) (Exec sv);
     let st = st\<lparr>Execs := put_at (Execs st) (Exec sv) (ex\<lparr>OutputBlobs := OutputBlobs ex @ [bytes]\<rparr>)\<rparr>;
     sv \<leftarrow> deref (Servers st) s;
     (dg, st) \<leftarrow> CAS_Put dgOf (CAS sv) bytes st;
     Some (ar\<lparr>StderrDigest := ToProto dg\<rparr>, st)
   }"

definition StdErrRaw_Apply ::
  "string \<Rightarrow> ActionResult \<Rightarrow> ptr \<Rightarrow> Store \<Rightarrow> (ActionResult \<times> Store) option" where
  "StdErrRaw_Apply err ar s st = Some (ar\<lparr>StderrRaw := err\<rparr>, st)"

definition ExecutionCacheHit_Apply ::
  "bool \<Rightarrow> ActionResult \<Rightarrow> ptr \<Rightarrow> Store \<Rightarrow> (ActionResult \<times> Store) option" where
  "ExecutionCacheHit_Apply c ar s st = do {
     sv \<leftarrow> deref (Servers st) s;
     ex \<leftarrow> deref (Execs st) (Exec sv);
     Some (ar, st\<lparr>Execs := put_at (Execs st) (Exec sv) (ex\<lparr>Cached := c\<rparr>)\<rparr>)
   }"

text \<open>The call \<^verbatim>\<open>o.Apply(ar, s)\<close> through the interface.\<close>

fun Apply ::
  "(bytes \<Rightarrow> Digest) \<Rightarrow> option_iface \<Rightarrow> ActionResult \<Rightarrow> ptr \<Rightarrow> Store
     \<Rightarrow> (ActionResult \<times> Store) option" where
  "Apply dgOf (OutputFile path contents) ar s st = OutputFile_Apply dgOf path contents ar s st"
| "Apply dgOf (StdOut out) ar s st = StdOut_Apply dgOf out ar s st"
| "Apply dgOf (StdOutRaw out) ar s st = StdOutRaw_Apply out ar s st"
| "Apply dgOf (StdErr err) ar s st = StdErr_Apply dgOf err ar s st"
| "Apply dgOf (StdErrRaw err) ar s st = StdErrRaw_Apply err ar s st"
| "Apply dgOf (ExecutionCacheHit c) ar s st = ExecutionCacheHit_Apply c ar s st"

subsection \<open>TestEnv.Set\<close>

text \<open>
  The loop \<^verbatim>\<open>for _, o := range opts { o.Apply(ar, e.Server) }\<close>: every option gets
  the same \<^verbatim>\<open>ActionResult\<close> pointer and the same server pointer, so each one starts
  from what the one before has left.
\<close>

fun apply_opts ::
  "(bytes \<Rightarrow> Digest) \<Rightarrow> option_iface list \<Rightarrow> ActionResult \<Rightarrow> ptr \<Rightarrow> Store
     \<Rightarrow> (ActionResult \<times> Store) option" where
  "apply_opts dgOf [] ar s st = Some (ar, st)"
| "apply_opts dgOf (x # xs) ar s st =
     (case Apply dgOf x ar s st of
        None \<Rightarrow> None
      | Some (ar, st) \<Rightarrow> apply_opts dgOf xs ar s st)"

text \<open>
  Of a \<^verbatim>\<open>TestEnv\<close>, \<^verbatim>\<open>Set\<close> reads the server pointer, and the \<^verbatim>\<open>*testing.T\<close> for
  \<^verbatim>\<open>Helper\<close> and \<^verbatim>\<open>Fatalf\<close>.
\<close>

record TestEnv =
  Server :: ptr
  ExecRoot :: string

text \<open>
  How a call of \<^verbatim>\<open>Set\<close> ends. The command is passed by pointer and changed in
  place, so each outcome carries the command as the caller finds it afterwards, and
  the store.
  \<^item> \<open>Returned cmdDg acDg cmd st\<close>: the call returns the two digests.
  \<^item> \<open>Fatal msg cmd st\<close>: the call has reached \<^verbatim>\<open>e.t.Fatalf\<close>. For a \<^verbatim>\<open>*testing.T\<close>,
    \<^verbatim>\<open>Fatalf\<close> is \<^verbatim>\<open>Logf\<close> followed by \<^verbatim>\<open>FailNow\<close>, and \<^verbatim>\<open>FailNow\<close> marks the
    test as failed and stops the goroutine with \<^verbatim>\<open>runtime.Goexit\<close>: control does not
    come back to \<^verbatim>\<open>Set\<close>, so the \<^verbatim>\<open>return digest.Empty, digest.Empty\<close> that follows
    each \<^verbatim>\<open>Fatalf\<close> is never executed and the caller receives no digests.
  \<^item> \<open>Panicked\<close>: a nil pointer was dereferenced.
\<close>

datatype 'c Set_outcome =
  Returned Digest Digest 'c Store
  | Fatal string 'c Store
  | Panicked

text \<open>
  The \<^verbatim>\<open>switch res.Status\<close> that ends \<^verbatim>\<open>Set\<close> (lines 147 to 160), on the store
  as the options and the assignment to \<^verbatim>\<open>Exec.ActionResult\<close> have left it. Every
  status without a \<^verbatim>\<open>case\<close> falls through the switch and changes nothing.
\<close>

definition Set_switch ::
  "('spec, 'z, 'ft, 'pb, 'err) Deps \<Rightarrow> TestEnv \<Rightarrow> 'err Result \<Rightarrow> Digest \<Rightarrow> ActionResult
     \<Rightarrow> Store \<Rightarrow> Store option" where
  "Set_switch D e res acDg ar st =
     (case Result.Status res of
        TimeoutResultStatus \<Rightarrow> do {
          sv \<leftarrow> deref (Servers st) (Server e);
          ex \<leftarrow> deref (Execs st) (Exec sv);
          Some (st\<lparr>Execs := put_at (Execs st) (Exec sv)
            (ex\<lparr>Exec.Status := status_New DeadlineExceeded ''timeout''\<rparr>)\<rparr>)
        }
      | RemoteErrorResultStatus \<Rightarrow> do {
          let (status, ok) = FromError D (Err res);
          let status = (if \<not> ok then status_New Internal ''remote error'' else status);
          sv \<leftarrow> deref (Servers st) (Server e);
          ex \<leftarrow> deref (Execs st) (Exec sv);
          Some (st\<lparr>Execs := put_at (Execs st) (Exec sv) (ex\<lparr>Exec.Status := status\<rparr>)\<rparr>)
        }
      | CacheHitResultStatus \<Rightarrow> do {
          sv \<leftarrow> deref (Servers st) (Server e);
          ex \<leftarrow> deref (Execs st) (Exec sv);
          if \<not> Cached ex
          then ActionCache_Put (ActionCache sv) acDg ar st
          else Some st
        }
      | _ \<Rightarrow> Some st)"

text \<open>
  \<^verbatim>\<open>Set\<close> itself: the command is defaulted, the input tree is built and packaged
  (either failure ends in \<^verbatim>\<open>Fatalf\<close>), the \<^verbatim>\<open>Action\<close> and the \<^verbatim>\<open>ActionResult\<close> are
  built and the action digest is taken, the options are applied, the result is
  stored in \<^verbatim>\<open>Exec.ActionResult\<close>, and the switch runs. \<^verbatim>\<open>int32(res.ExitCode)\<close>
  keeps the low 32 bits. \<^verbatim>\<open>e.t.Helper()\<close> only marks the caller for the test log.

  The command, the execution options and the result are passed by pointer; the model
  takes the structs they point to, so it describes the calls in which these three
  pointers, and the \<^verbatim>\<open>TestEnv\<close> itself, are not nil. The server pointer of the
  \<^verbatim>\<open>TestEnv\<close> and the pointers inside the server may be nil.
\<close>

definition TestEnv_Set ::
  "('spec, 'z, 'ft, 'pb, 'err) Deps \<Rightarrow> TestEnv \<Rightarrow> ('spec, 'z) Command_scheme
     \<Rightarrow> ExecutionOptions \<Rightarrow> 'err Result \<Rightarrow> option_iface list \<Rightarrow> Store
     \<Rightarrow> ('spec, 'z) Command_scheme Set_outcome" where
  "TestEnv_Set D e cmd opt res opts st =
     (let cmd = FillDefaultFieldValues D cmd in
      case BuildTreeFromInputs D (Command.ExecRoot cmd) (InputSpec cmd) of
        Inl err \<Rightarrow> Fatal (''error building input tree in fake setup: '' @ err) cmd st
      | Inr ft \<Rightarrow>
     (case PackageTree D ft of
        Inl err \<Rightarrow> Fatal (''error building input tree in fake setup: '' @ err) cmd st
      | Inr root \<Rightarrow>
         (let cmdPb = ToREProto D cmd;
              cmdDg = TestNewFromMessage D (CommandMsg cmdPb);
              ac = \<lparr>CommandDigest = ToProto cmdDg,
                    InputRootDigest = ToProto root,
                    Action.Timeout = None,
                    Action.DoNotCache = ExecutionOptions.DoNotCache opt\<rparr>;
              ac = (if 0 <s Command.Timeout cmd
                    then ac\<lparr>Action.Timeout := DurationProto (Command.Timeout cmd)\<rparr>
                    else ac);
              ar = \<lparr>ActionResult.ExitCode = ucast (Result.ExitCode res),
                    OutputFiles = [], StdoutDigest = None, StderrDigest = None,
                    StdoutRaw = [], StderrRaw = []\<rparr>;
              acDg = TestNewFromMessage D (ActionMsg ac)
          in (case do {
               (ar, st) \<leftarrow> apply_opts (digestOf D) opts ar (Server e) st;
               sv \<leftarrow> deref (Servers st) (Server e);
               ex \<leftarrow> deref (Execs st) (Exec sv);
               let st = st\<lparr>Execs := put_at (Execs st) (Exec sv) (ex\<lparr>ActionResult := Some ar\<rparr>)\<rparr>;
               Set_switch D e res acDg ar st
             } of
               None \<Rightarrow> Panicked
             | Some st \<Rightarrow> Returned cmdDg acDg cmd st))))"

text \<open>The digests a call of \<^verbatim>\<open>Set\<close> hands to its caller, if it returns.\<close>

fun returned_digests :: "'c Set_outcome \<Rightarrow> (Digest \<times> Digest) option" where
  "returned_digests (Returned cmdDg acDg cmd st) = Some (cmdDg, acDg)"
| "returned_digests (Fatal msg cmd st) = None"
| "returned_digests Panicked = None"

text \<open>A server pointer is usable when it and the three pointers of the server are
  allocated, as they are for every server that \<^verbatim>\<open>NewServer\<close> has made.\<close>

definition valid_Server :: "ptr \<Rightarrow> Store \<Rightarrow> bool" where
  "valid_Server s st =
     (case deref (Servers st) s of
        None \<Rightarrow> False
      | Some sv \<Rightarrow> deref (Execs st) (Exec sv) \<noteq> None
                   \<and> deref (CASs st) (CAS sv) \<noteq> None
                   \<and> deref (ActionCaches st) (ActionCache sv) \<noteq> None)"

text \<open>In a well-formed store no pointer dangles: a pointer is nil or the address
  of an allocated object. Go guarantees this of every reachable state.\<close>

definition ptr_ok :: "'a list \<Rightarrow> ptr \<Rightarrow> bool" where
  "ptr_ok xs p = (case p of None \<Rightarrow> True | Some a \<Rightarrow> a < length xs)"

definition wf_Store :: "Store \<Rightarrow> bool" where
  "wf_Store st =
     ((\<forall>sv \<in> set (Servers st).
          ptr_ok (Execs st) (Exec sv) \<and> ptr_ok (CASs st) (CAS sv)
          \<and> ptr_ok (ActionCaches st) (ActionCache sv))
      \<and> (\<forall>ex \<in> set (Execs st).
          ptr_ok (ActionCaches st) (ac_ptr ex) \<and> ptr_ok (CASs st) (cas_ptr ex)))"

subsection \<open>A running example\<close>

text \<open>
  Concrete collaborators and a concrete store, on which the theorems below are
  instantiated: commands get the execution root \<open>/\<close> when they have none, the tree of
  a command is the list of its inputs under the root (no input, and an input named
  \<open>bad\<close>, cannot be read), digests are transparent, and an error is either a gRPC
  status or a plain message. The store is the one \<^verbatim>\<open>NewServer\<close> makes from nothing.
\<close>

definition example_Deps :: "(string list, unit, string list, string, Status + string) Deps" where
  "example_Deps =
     \<lparr>FillDefaultFieldValues =
        (\<lambda>c. if Command.ExecRoot c = [] then c\<lparr>Command.ExecRoot := ''/''\<rparr> else c),
      BuildTreeFromInputs =
        (\<lambda>dir spec. if spec = [] then Inl ''no inputs'' else Inr (map ((@) dir) spec)),
      PackageTree =
        (\<lambda>ft. if ''/bad'' \<in> set ft then Inl ''unreadable''
              else Inr \<lparr>Hash = concat ft, Size = length ft\<rparr>),
      ToREProto = Command.ExecRoot,
      TestNewFromMessage =
        (\<lambda>m. case m of
               CommandMsg pb \<Rightarrow> \<lparr>Hash = pb, Size = 1\<rparr>
             | ActionMsg a \<Rightarrow>
                 \<lparr>Hash = (case InputRootDigest a of None \<Rightarrow> [] | Some d \<Rightarrow> Hash d),
                  Size = (if Action.Timeout a = None then 2 else 3)\<rparr>),
      FromError =
        (\<lambda>err. case err of
                 Inl status \<Rightarrow> (Some status, True)
               | Inr msg \<Rightarrow> (Some \<lparr>Code = Unknown, Message = msg\<rparr>, False)),
      digestOf = (\<lambda>b. \<lparr>Hash = b, Size = length b\<rparr>)\<rparr>"

definition example_Listener :: Listener where
  "example_Listener = \<lparr>Addr = ''[::]:40000'', closed = False\<rparr>"

definition example_Store :: Store where
  "example_Store = snd (NewServer (Inr example_Listener) empty_Store)"

definition example_Server :: Server where
  "example_Server =
     \<lparr>Exec = Some 0, CAS = Some 0, ActionCache = Some 0,
      listener = Some example_Listener,
      srv = Some \<lparr>services =
                   [ByteStreamServer (Some 0), ContentAddressableStorageServer (Some 0),
                    ActionCacheServer (Some 0), ExecutionServer (Some 0)],
                 serving = Some example_Listener, stopped = False\<rparr>\<rparr>"

definition example_TestEnv :: TestEnv where
  "example_TestEnv = \<lparr>Server = Some 0, TestEnv.ExecRoot = ''/tmp/test''\<rparr>"

definition example_cmd :: "string list \<Rightarrow> 64 word \<Rightarrow> string list Command" where
  "example_cmd inputs t = \<lparr>Command.ExecRoot = [], InputSpec = inputs, Command.Timeout = t\<rparr>"

definition example_opt :: ExecutionOptions where
  "example_opt = \<lparr>ExecutionOptions.DoNotCache = False\<rparr>"

definition example_res :: "ResultStatus \<Rightarrow> Status + string \<Rightarrow> (Status + string) Result" where
  "example_res status err = \<lparr>Result.Status = status, Result.ExitCode = 0, Err = err\<rparr>"

definition example_ar :: ActionResult where
  "example_ar =
     \<lparr>ActionResult.ExitCode = 0, OutputFiles = [], StdoutDigest = None, StderrDigest = None,
      StdoutRaw = [], StderrRaw = []\<rparr>"

definition example_Exec ::
  "ActionResult option \<Rightarrow> Status option \<Rightarrow> bool \<Rightarrow> bytes list \<Rightarrow> Exec" where
  "example_Exec r status c outs =
     \<lparr>ac_ptr = Some 0, cas_ptr = Some 0, ActionResult = r, Status = status, Cached = c,
      OutputBlobs = outs\<rparr>"

definition example_cmdDg :: Digest where
  "example_cmdDg = \<lparr>Hash = ''/'', Size = 1\<rparr>"

definition example_acDg :: Digest where
  "example_acDg = \<lparr>Hash = ''/a'', Size = 2\<rparr>"

section \<open>Facts about the store and the operations\<close>

lemmas example_defs =
  example_Deps_def example_Listener_def example_Store_def example_Server_def example_TestEnv_def example_cmd_def example_opt_def
  example_res_def example_ar_def example_Exec_def example_cmdDg_def example_acDg_def

lemmas eval_defs =
  NewServer_def NewCAS_def NewActionCache_def NewExec_def empty_Store_def put_at_def deref_def
  TestEnv_Set_def Set_switch_def ActionCache_Put_def CAS_Put_def ToProto_def status_New_def
  OutputFile_Apply_def StdOut_Apply_def StdOutRaw_Apply_def StdErr_Apply_def
  StdErrRaw_Apply_def ExecutionCacheHit_Apply_def
  Server_Clear_def CAS_Clear_def ActionCache_Clear_def Exec_Clear_def Let_def

subsection \<open>Pointers\<close>

lemma deref_put_at_same: "deref xs p = Some v \<Longrightarrow> deref (put_at xs p w) p = Some w"
  by (auto simp: deref_def put_at_def split: option.splits if_splits)

lemma deref_put_at_other: "p \<noteq> q \<Longrightarrow> deref (put_at xs p w) q = deref xs q"
  by (cases p; cases q) (auto simp: deref_def put_at_def)

lemma length_put_at: "length (put_at xs p w) = length xs"
  by (simp add: put_at_def split: option.splits)

lemma deref_map: "deref (map f xs) p = map_option f (deref xs p)"
  by (simp add: deref_def split: option.splits)

lemma map_put_at_same:
  "deref xs p = Some x \<Longrightarrow> f y = f x \<Longrightarrow> map f (put_at xs p y) = map f xs"
  by (auto simp: deref_def put_at_def map_update list_update_same_conv split: option.splits if_splits)

lemma deref_None_length:
  "length xs = length ys \<Longrightarrow> deref xs p = None \<longleftrightarrow> deref ys p = None"
  by (auto simp: deref_def split: option.splits)

subsection \<open>What the component methods do to the store\<close>

lemma CAS_Put_frame:
  "CAS_Put dgOf f data st = Some (d, st') \<Longrightarrow>
     Servers st' = Servers st \<and> ActionCaches st' = ActionCaches st \<and> Execs st' = Execs st
     \<and> length (CASs st') = length (CASs st) \<and> d = dgOf data"
  by (auto simp: CAS_Put_def Let_def length_put_at split: Option.bind_splits)

lemma CAS_Put_Some:
  "CAS_Put dgOf f data st = Some (d, st') \<longleftrightarrow>
     (\<exists>c. deref (CASs st) f = Some c \<and> d = dgOf data
        \<and> st' = st\<lparr>CASs := put_at (CASs st) f (c\<lparr>blobs := (blobs c)(dgOf data \<mapsto> data)\<rparr>)\<rparr>)"
  by (auto simp: CAS_Put_def Let_def split: Option.bind_splits)

lemma ActionCache_Put_Some:
  "ActionCache_Put f d r st = Some st' \<longleftrightarrow>
     (\<exists>c. deref (ActionCaches st) f = Some c
        \<and> st' = st\<lparr>ActionCaches := put_at (ActionCaches st) f (c\<lparr>results := (results c)(d \<mapsto> r)\<rparr>)\<rparr>)"
  by (auto simp: ActionCache_Put_def split: Option.bind_splits)

lemma ExecutionCacheHit_Apply_Some:
  "ExecutionCacheHit_Apply c ar s st = Some (ar', st') \<longleftrightarrow>
     (\<exists>sv ex. deref (Servers st) s = Some sv \<and> deref (Execs st) (Exec sv) = Some ex
        \<and> ar' = ar \<and> st' = st\<lparr>Execs := put_at (Execs st) (Exec sv) (ex\<lparr>Cached := c\<rparr>)\<rparr>)"
  by (auto simp: ExecutionCacheHit_Apply_def split: Option.bind_splits)

subsection \<open>What the options leave alone\<close>

text \<open>
  No option touches the server objects or the action caches, none allocates, none
  changes \<^verbatim>\<open>Exec.Status\<close>, and only \<^verbatim>\<open>ExecutionCacheHit\<close> changes \<^verbatim>\<open>Exec.Cached\<close>.
\<close>

lemma Apply_frame:
  "Apply dgOf x ar s st = Some (ar', st') \<Longrightarrow>
     Servers st' = Servers st \<and> ActionCaches st' = ActionCaches st
     \<and> length (Execs st') = length (Execs st) \<and> length (CASs st') = length (CASs st)"
  by (cases x)
     (auto simp: OutputFile_Apply_def StdOut_Apply_def StdOutRaw_Apply_def StdErr_Apply_def
        StdErrRaw_Apply_def ExecutionCacheHit_Apply_def length_put_at
        dest!: CAS_Put_frame split: Option.bind_splits)

lemma apply_opts_frame:
  "apply_opts dgOf xs ar s st = Some (ar', st') \<Longrightarrow>
     Servers st' = Servers st \<and> ActionCaches st' = ActionCaches st
     \<and> length (Execs st') = length (Execs st) \<and> length (CASs st') = length (CASs st)"
proof (induction xs arbitrary: ar st)
  case Nil
  then show ?case by simp
next
  case (Cons x xs)
  from Cons.prems obtain ar1 st1 where
    a: "Apply dgOf x ar s st = Some (ar1, st1)" and r: "apply_opts dgOf xs ar1 s st1 = Some (ar', st')"
    by (auto split: option.splits)
  from Apply_frame [OF a] Cons.IH [OF r] show ?case by simp
qed

lemma apply_opts_append:
  "apply_opts dgOf (xs @ ys) ar s st =
     (case apply_opts dgOf xs ar s st of None \<Rightarrow> None
      | Some (ar1, st1) \<Rightarrow> apply_opts dgOf ys ar1 s st1)"
  by (induction xs arbitrary: ar st) (auto split: option.splits)

lemma Apply_Status:
  "Apply dgOf x ar s st = Some (ar', st') \<Longrightarrow>
     map Exec.Status (Execs st') = map Exec.Status (Execs st)"
  by (cases x)
     (auto simp: OutputFile_Apply_def StdOut_Apply_def StdOutRaw_Apply_def StdErr_Apply_def
        StdErrRaw_Apply_def ExecutionCacheHit_Apply_def CAS_Put_Some map_put_at_same
        split: Option.bind_splits)

lemma apply_opts_Status:
  "apply_opts dgOf xs ar s st = Some (ar', st') \<Longrightarrow>
     map Exec.Status (Execs st') = map Exec.Status (Execs st)"
proof (induction xs arbitrary: ar st)
  case Nil
  then show ?case by simp
next
  case (Cons x xs)
  from Cons.prems obtain ar1 st1 where
    a: "Apply dgOf x ar s st = Some (ar1, st1)" and r: "apply_opts dgOf xs ar1 s st1 = Some (ar', st')"
    by (auto split: option.splits)
  from Apply_Status [OF a] Cons.IH [OF r] show ?case by simp
qed

lemma Apply_Cached:
  "\<forall>b. x \<noteq> ExecutionCacheHit b \<Longrightarrow> Apply dgOf x ar s st = Some (ar', st') \<Longrightarrow>
     map Cached (Execs st') = map Cached (Execs st)"
  by (cases x)
     (auto simp: OutputFile_Apply_def StdOut_Apply_def StdOutRaw_Apply_def StdErr_Apply_def
        StdErrRaw_Apply_def CAS_Put_Some map_put_at_same
        split: Option.bind_splits)

lemma apply_opts_Cached:
  "\<forall>x \<in> set xs. \<forall>b. x \<noteq> ExecutionCacheHit b \<Longrightarrow>
   apply_opts dgOf xs ar s st = Some (ar', st') \<Longrightarrow>
     map Cached (Execs st') = map Cached (Execs st)"
proof (induction xs arbitrary: ar st)
  case Nil
  then show ?case by simp
next
  case (Cons x xs)
  from Cons.prems(2) obtain ar1 st1 where
    a: "Apply dgOf x ar s st = Some (ar1, st1)" and r: "apply_opts dgOf xs ar1 s st1 = Some (ar', st')"
    by (auto split: option.splits)
  from Cons.prems(1) have x: "\<forall>b. x \<noteq> ExecutionCacheHit b"
    and xs: "\<forall>x \<in> set xs. \<forall>b. x \<noteq> ExecutionCacheHit b" by simp_all
  from Apply_Cached [OF x a] Cons.IH [OF xs r] show ?case by simp
qed

lemma apply_opts_last_ExecutionCacheHit:
  assumes "apply_opts dgOf (pre @ ExecutionCacheHit c # post) ar s st = Some (ar', st')"
    and "\<forall>x \<in> set post. \<forall>b. x \<noteq> ExecutionCacheHit b"
  shows "\<exists>sv ex. deref (Servers st') s = Some sv \<and> deref (Execs st') (Exec sv) = Some ex
           \<and> Cached ex = c"
proof -
  from assms(1) obtain ar1 st1 ar2 st2 where
    p: "apply_opts dgOf pre ar s st = Some (ar1, st1)"
    and h: "ExecutionCacheHit_Apply c ar1 s st1 = Some (ar2, st2)"
    and q: "apply_opts dgOf post ar2 s st2 = Some (ar', st')"
    by (auto simp: apply_opts_append split: option.splits)
  from h obtain sv ex where sv: "deref (Servers st1) s = Some sv"
    and ex: "deref (Execs st1) (Exec sv) = Some ex"
    and st2: "st2 = st1\<lparr>Execs := put_at (Execs st1) (Exec sv) (ex\<lparr>Cached := c\<rparr>)\<rparr>"
    by (auto simp: ExecutionCacheHit_Apply_Some)
  have "deref (Execs st2) (Exec sv) = Some (ex\<lparr>Cached := c\<rparr>)"
    using ex st2 by (simp add: deref_put_at_same)
  then have "deref (map Cached (Execs st2)) (Exec sv) = Some c"
    by (simp add: deref_map)
  then have "deref (map Cached (Execs st')) (Exec sv) = Some c"
    using apply_opts_Cached [OF assms(2) q] by simp
  then obtain ex' where "deref (Execs st') (Exec sv) = Some ex'" "Cached ex' = c"
    by (auto simp: deref_map)
  moreover have "deref (Servers st') s = Some sv"
    using apply_opts_frame [OF q] sv st2 by simp
  ultimately show ?thesis by blast
qed

subsection \<open>The steps of a returning call of Set\<close>

lemma Set_Returned_D:
  assumes "TestEnv_Set D e cmd opt res opts st = Returned cmdDg acDg cmd' st'"
  shows "\<exists>ft root ar st1 sv ex1.
    cmd' = FillDefaultFieldValues D cmd
    \<and> BuildTreeFromInputs D (Command.ExecRoot cmd') (InputSpec cmd') = Inr ft
    \<and> PackageTree D ft = Inr root
    \<and> cmdDg = TestNewFromMessage D (CommandMsg (ToREProto D cmd'))
    \<and> acDg = TestNewFromMessage D (ActionMsg
         \<lparr>CommandDigest = Some cmdDg, InputRootDigest = Some root,
          Action.Timeout = (if 0 <s Command.Timeout cmd'
                            then DurationProto (Command.Timeout cmd') else None),
          Action.DoNotCache = ExecutionOptions.DoNotCache opt\<rparr>)
    \<and> apply_opts (digestOf D) opts
         \<lparr>ActionResult.ExitCode = ucast (Result.ExitCode res),
          OutputFiles = [], StdoutDigest = None, StderrDigest = None,
          StdoutRaw = [], StderrRaw = []\<rparr> (Server e) st = Some (ar, st1)
    \<and> deref (Servers st1) (Server e) = Some sv
    \<and> deref (Execs st1) (Exec sv) = Some ex1
    \<and> Set_switch D e res acDg ar
         (st1\<lparr>Execs := put_at (Execs st1) (Exec sv) (ex1\<lparr>ActionResult := Some ar\<rparr>)\<rparr>) = Some st'"
  using assms
  by (auto simp: TestEnv_Set_def Let_def ToProto_def
      split: sum.splits option.splits Option.bind_splits if_splits)

lemma Set_switch_CacheHit:
  assumes "Result.Status res = CacheHitResultStatus"
    and "deref (Servers st) (Server e) = Some sv"
    and "deref (Execs st) (Exec sv) = Some ex"
  shows "Set_switch D e res acDg ar st =
           (if \<not> Cached ex then ActionCache_Put (ActionCache sv) acDg ar st else Some st)"
  using assms by (simp add: Set_switch_def)

lemma Set_switch_effect:
  assumes sv: "deref (Servers st) (Server e) = Some sv"
    and ex: "deref (Execs st) (Exec sv) = Some ex"
    and sw: "Set_switch D e res acDg ar st = Some st'"
  shows "Servers st' = Servers st \<and> CASs st' = CASs st
    \<and> deref (Execs st') (Exec sv) =
        Some (ex\<lparr>Exec.Status :=
          (case Result.Status res of
             TimeoutResultStatus \<Rightarrow> Some \<lparr>Code = DeadlineExceeded, Message = ''timeout''\<rparr>
           | RemoteErrorResultStatus \<Rightarrow>
               (if snd (FromError D (Err res)) then fst (FromError D (Err res))
                else Some \<lparr>Code = Internal, Message = ''remote error''\<rparr>)
           | _ \<Rightarrow> Exec.Status ex)\<rparr>)
    \<and> (Result.Status res \<noteq> CacheHitResultStatus \<longrightarrow> ActionCaches st' = ActionCaches st)
    \<and> (Result.Status res \<noteq> TimeoutResultStatus \<and> Result.Status res \<noteq> RemoteErrorResultStatus
         \<longrightarrow> Execs st' = Execs st)"
proof (cases "Result.Status res")
  case CacheHitResultStatus
  with sw sv ex show ?thesis
    by (auto simp: Set_switch_def ActionCache_Put_Some split: if_splits)
next
  case TimeoutResultStatus
  with sw sv ex show ?thesis
    by (auto simp: Set_switch_def status_New_def deref_put_at_same)
next
  case RemoteErrorResultStatus
  with sw sv ex show ?thesis
    by (auto simp: Set_switch_def status_New_def deref_put_at_same split: prod.splits)
qed (use sw sv ex in \<open>auto simp: Set_switch_def\<close>)

lemma Set_switch_ignored:
  "Result.Status res = LocalErrorResultStatus \<or> Result.Status res = InterruptedResultStatus \<Longrightarrow>
     Set_switch D e (res\<lparr>Result.Status := SuccessResultStatus\<rparr>) acDg ar st =
     Set_switch D e res acDg ar st"
  by (auto simp: Set_switch_def)

lemma Set_status_ignored:
  "Result.Status res = LocalErrorResultStatus \<or> Result.Status res = InterruptedResultStatus \<Longrightarrow>
     TestEnv_Set D e cmd opt (res\<lparr>Result.Status := SuccessResultStatus\<rparr>) opts st =
     TestEnv_Set D e cmd opt res opts st"
  by (simp add: TestEnv_Set_def Let_def Set_switch_ignored split: sum.splits)

lemma Set_switch_frame:
  "Set_switch D e res acDg ar st = Some st' \<Longrightarrow>
     Servers st' = Servers st \<and> CASs st' = CASs st
     \<and> length (Execs st') = length (Execs st)
     \<and> length (ActionCaches st') = length (ActionCaches st)"
  by (cases "Result.Status res")
     (auto simp: Set_switch_def ActionCache_Put_Some length_put_at
        split: Option.bind_splits if_splits prod.splits)

lemma TestEnv_Set_frame:
  assumes "TestEnv_Set D e cmd opt res opts st = Returned cmdDg acDg cmd' st'"
  shows "Servers st' = Servers st
    \<and> length (Execs st') = length (Execs st)
    \<and> length (CASs st') = length (CASs st)
    \<and> length (ActionCaches st') = length (ActionCaches st)"
proof -
  from Set_Returned_D [OF assms] obtain ar st1 sv ex1 where
    opts: "apply_opts (digestOf D) opts
        \<lparr>ActionResult.ExitCode = ucast (Result.ExitCode res),
         OutputFiles = [], StdoutDigest = None, StderrDigest = None,
         StdoutRaw = [], StderrRaw = []\<rparr> (Server e) st = Some (ar, st1)"
    and sv: "deref (Servers st1) (Server e) = Some sv"
    and sw: "Set_switch D e res acDg ar
         (st1\<lparr>Execs := put_at (Execs st1) (Exec sv) (ex1\<lparr>ActionResult := Some ar\<rparr>)\<rparr>) = Some st'"
    by blast
  from apply_opts_frame [OF opts] Set_switch_frame [OF sw] show ?thesis
    by (simp add: length_put_at)
qed

subsection \<open>Set does not panic on a server with allocated components\<close>

text \<open>
  A server pointer that is valid stays so through every call of \<^verbatim>\<open>Set\<close> and
  \<^verbatim>\<open>Clear\<close>, and on a valid server \<^verbatim>\<open>Set\<close> returns or ends in \<^verbatim>\<open>Fatalf\<close>; the
  pointer \<^verbatim>\<open>NewServer\<close> returns is valid (\<open>NewServer_valid\<close> below).
\<close>

lemma valid_Server_iff:
  "valid_Server s st \<longleftrightarrow>
     (\<exists>sv ex c a. deref (Servers st) s = Some sv \<and> deref (Execs st) (Exec sv) = Some ex
        \<and> deref (CASs st) (CAS sv) = Some c \<and> deref (ActionCaches st) (ActionCache sv) = Some a)"
  by (auto simp: valid_Server_def split: option.splits)

lemma valid_Server_lengths:
  assumes "valid_Server s st"
    and "Servers st' = Servers st" and "length (Execs st') = length (Execs st)"
    and "length (CASs st') = length (CASs st)"
    and "length (ActionCaches st') = length (ActionCaches st)"
  shows "valid_Server s st'"
  using assms(1,2) deref_None_length [OF assms(3)] deref_None_length [OF assms(4)]
    deref_None_length [OF assms(5)]
  by (auto simp: valid_Server_def split: option.splits)

lemma Apply_valid:
  assumes "valid_Server s st"
  shows "\<exists>ar' st'. Apply dgOf x ar s st = Some (ar', st') \<and> valid_Server s st'"
proof -
  from assms obtain sv ex c a where
    "deref (Servers st) s = Some sv" "deref (Execs st) (Exec sv) = Some ex"
    "deref (CASs st) (CAS sv) = Some c" "deref (ActionCaches st) (ActionCache sv) = Some a"
    by (auto simp: valid_Server_iff)
  with assms show ?thesis
    by (cases x)
       (auto simp: OutputFile_Apply_def StdOut_Apply_def StdOutRaw_Apply_def StdErr_Apply_def
          StdErrRaw_Apply_def ExecutionCacheHit_Apply_def CAS_Put_def Let_def length_put_at
          intro: valid_Server_lengths [OF assms])
qed

lemma apply_opts_valid:
  "valid_Server s st \<Longrightarrow>
     \<exists>ar' st'. apply_opts dgOf xs ar s st = Some (ar', st') \<and> valid_Server s st'"
proof (induction xs arbitrary: ar st)
  case Nil
  then show ?case by simp
next
  case (Cons x xs)
  from Apply_valid [OF Cons.prems, of dgOf x ar] obtain ar1 st1 where
    a: "Apply dgOf x ar s st = Some (ar1, st1)" and v: "valid_Server s st1"
    by blast
  from Cons.IH [OF v, of ar1] a show ?case by simp
qed

lemma Set_switch_valid:
  assumes "valid_Server (Server e) st"
  shows "Set_switch D e res acDg ar st \<noteq> None"
proof -
  from assms obtain sv ex c a where
    "deref (Servers st) (Server e) = Some sv" "deref (Execs st) (Exec sv) = Some ex"
    "deref (CASs st) (CAS sv) = Some c" "deref (ActionCaches st) (ActionCache sv) = Some a"
    by (auto simp: valid_Server_iff)
  then show ?thesis
    by (cases "Result.Status res")
       (simp_all add: Set_switch_def ActionCache_Put_def split: prod.splits)
qed

lemma TestEnv_Set_never_panics:
  assumes "valid_Server (Server e) st"
  shows "TestEnv_Set D e cmd opt res opts st \<noteq> Panicked"
proof -
  have "(apply_opts (digestOf D) opts ar (Server e) st \<bind>
          (\<lambda>(ar, st). deref (Servers st) (Server e) \<bind>
             (\<lambda>sv. deref (Execs st) (Exec sv) \<bind>
                (\<lambda>ex. Set_switch D e res acDg ar
                   (st\<lparr>Execs := put_at (Execs st) (Exec sv) (ex\<lparr>ActionResult := Some ar\<rparr>)\<rparr>))))) \<noteq> None"
    for ar acDg
  proof -
    from apply_opts_valid [OF assms, of "digestOf D" opts ar] obtain ar1 st1 where
      a: "apply_opts (digestOf D) opts ar (Server e) st = Some (ar1, st1)"
      and v: "valid_Server (Server e) st1"
      by blast
    from v obtain sv ex where
      sv: "deref (Servers st1) (Server e) = Some sv" and ex: "deref (Execs st1) (Exec sv) = Some ex"
      by (auto simp: valid_Server_iff)
    have "valid_Server (Server e)
            (st1\<lparr>Execs := put_at (Execs st1) (Exec sv) (ex\<lparr>ActionResult := Some ar1\<rparr>)\<rparr>)"
      by (rule valid_Server_lengths [OF v]) (simp_all add: length_put_at)
    from Set_switch_valid [OF this, of D res acDg ar1] a sv ex show ?thesis
      by auto
  qed
  then have "(case apply_opts (digestOf D) opts ar (Server e) st \<bind>
          (\<lambda>(ar, st). deref (Servers st) (Server e) \<bind>
             (\<lambda>sv. deref (Execs st) (Exec sv) \<bind>
                (\<lambda>ex. Set_switch D e res acDg ar
                   (st\<lparr>Execs := put_at (Execs st) (Exec sv) (ex\<lparr>ActionResult := Some ar\<rparr>)\<rparr>)))) of
           None \<Rightarrow> Panicked | Some st \<Rightarrow> Returned cmdDg acDg c st) \<noteq> Panicked"
    for ar acDg cmdDg and c :: "('a, 'b) Command_scheme"
    by (simp split: option.splits)
  then show ?thesis
    by (simp add: TestEnv_Set_def Let_def split: sum.splits)
qed

lemma TestEnv_Set_keeps_valid:
  assumes "TestEnv_Set D e cmd opt res opts st = Returned cmdDg acDg cmd' st'"
    and "valid_Server s st"
  shows "valid_Server s st'"
  using TestEnv_Set_frame [OF assms(1)]
  by (intro valid_Server_lengths [OF assms(2)]) simp_all

subsection \<open>Clear and NewServer\<close>

lemma Server_Clear_valid:
  assumes "deref (Servers st) s = Some sv"
    and "deref (CASs st) (CAS sv) = Some c"
    and "deref (ActionCaches st) (ActionCache sv) = Some a"
    and "deref (Execs st) (Exec sv) = Some ex"
  shows "Server_Clear s st =
     Some (st\<lparr>CASs := put_at (CASs st) (CAS sv) (c\<lparr>blobs := Map.empty\<rparr>),
              ActionCaches := put_at (ActionCaches st) (ActionCache sv) (a\<lparr>results := Map.empty\<rparr>),
              Execs := put_at (Execs st) (Exec sv)
                (ex\<lparr>ActionResult := None, Exec.Status := None, Cached := False, OutputBlobs := []\<rparr>)\<rparr>)"
  using assms
  by (simp add: Server_Clear_def CAS_Clear_def ActionCache_Clear_def Exec_Clear_def)

lemma Server_Clear_keeps_valid:
  assumes "Server_Clear s st = Some st'" and "valid_Server p st"
  shows "valid_Server p st'"
proof -
  from assms(1) have "Servers st' = Servers st \<and> length (Execs st') = length (Execs st)
      \<and> length (CASs st') = length (CASs st)
      \<and> length (ActionCaches st') = length (ActionCaches st)"
    by (auto simp: Server_Clear_def CAS_Clear_def ActionCache_Clear_def Exec_Clear_def
        length_put_at split: Option.bind_splits)
  then show ?thesis
    by (intro valid_Server_lengths [OF assms(2)]) simp_all
qed

lemma ptr_ok_append: "ptr_ok xs p \<Longrightarrow> ptr_ok (xs @ ys) p"
  by (auto simp: ptr_ok_def split: option.splits)

lemma ptr_ok_fresh: "ptr_ok xs p \<Longrightarrow> p \<noteq> Some (length xs)"
  by (auto simp: ptr_ok_def)

lemma ptr_ok_new: "ptr_ok (xs @ [x]) (Some (length xs))"
  by (simp add: ptr_ok_def)

lemma NewServer_unfold:
  "NewServer listen st =
     (let sv = \<lparr>Exec = Some (length (Execs st)), CAS = Some (length (CASs st)),
               ActionCache = Some (length (ActionCaches st)), listener = None, srv = None\<rparr>;
          sv' = (case listen of
                   Inl err \<Rightarrow> sv
                 | Inr l \<Rightarrow> sv\<lparr>listener := Some l,
                     srv := Some \<lparr>services =
                         [ByteStreamServer (Some (length (CASs st))),
                          ContentAddressableStorageServer (Some (length (CASs st))),
                          ActionCacheServer (Some (length (ActionCaches st))),
                          ExecutionServer (Some (length (Execs st)))],
                       serving = Some l, stopped = False\<rparr>\<rparr>)
      in (case listen of Inl err \<Rightarrow> Inl err | Inr l \<Rightarrow> Inr (Some (length (Servers st))),
          \<lparr>CASs = CASs st @ [\<lparr>blobs = Map.empty\<rparr>],
           ActionCaches = ActionCaches st @ [\<lparr>results = Map.empty\<rparr>],
           Execs = Execs st @
             [\<lparr>ac_ptr = Some (length (ActionCaches st)), cas_ptr = Some (length (CASs st)),
               ActionResult = None, Status = None, Cached = False, OutputBlobs = []\<rparr>],
           Servers = Servers st @ [sv']\<rparr>))"
  by (cases st; cases listen)
     (simp_all add: NewServer_def NewCAS_def NewActionCache_def NewExec_def Let_def put_at_def)

lemma wf_Store_empty: "wf_Store empty_Store"
  by (simp add: wf_Store_def empty_Store_def)

lemma NewServer_wf: "wf_Store st \<Longrightarrow> wf_Store (snd (NewServer listen st))"
  by (cases listen)
     (auto simp: NewServer_unfold Let_def wf_Store_def ptr_ok_new ptr_ok_append)

lemma NewServer_valid:
  "NewServer listen st = (Inr s, st') \<Longrightarrow> valid_Server s st'"
  by (cases listen)
     (auto simp: NewServer_unfold Let_def valid_Server_def deref_def nth_append)

section \<open>The claims\<close>

subsection \<open>C1: a configured cache hit populates the action cache\<close>

text \<open>
  Claim C1. In a call of \<^verbatim>\<open>Set\<close> with \<^verbatim>\<open>res.Status == CacheHitResultStatus\<close> that
  returns: if \<^verbatim>\<open>Exec.Cached\<close> is false when the switch is reached (after all options
  have been applied), the action cache of the server gets the assembled
  \<^verbatim>\<open>ActionResult\<close> under the returned action digest \<open>acDg\<close>, and that is the only
  change to the action caches; if \<^verbatim>\<open>Exec.Cached\<close> is true, the action caches after the
  call are the ones before it. The assembled result \<open>ar\<close> is also what
  \<^verbatim>\<open>Exec.ActionResult\<close> holds afterwards.
\<close>

theorem C1_cache_hit_writes_action_cache_unless_cached:
  assumes "Result.Status res = CacheHitResultStatus"
    and "TestEnv_Set D e cmd opt res opts st = Returned cmdDg acDg cmd' st'"
  shows "\<exists>ar st1 sv ex1.
      apply_opts (digestOf D) opts
        \<lparr>ActionResult.ExitCode = ucast (Result.ExitCode res),
         OutputFiles = [], StdoutDigest = None, StderrDigest = None,
         StdoutRaw = [], StderrRaw = []\<rparr> (Server e) st = Some (ar, st1)
    \<and> deref (Servers st1) (Server e) = Some sv
    \<and> deref (Execs st1) (Exec sv) = Some ex1
    \<and> deref (Execs st') (Exec sv) = Some (ex1\<lparr>ActionResult := Some ar\<rparr>)
    \<and> (\<not> Cached ex1 \<longrightarrow>
          (\<exists>c. deref (ActionCaches st) (ActionCache sv) = Some c
             \<and> ActionCaches st' =
                 put_at (ActionCaches st) (ActionCache sv) (c\<lparr>results := (results c)(acDg \<mapsto> ar)\<rparr>)))
    \<and> (Cached ex1 \<longrightarrow> ActionCaches st' = ActionCaches st)"
proof -
  from Set_Returned_D [OF assms(2)] obtain ar st1 sv ex1 where
    opts: "apply_opts (digestOf D) opts
        \<lparr>ActionResult.ExitCode = ucast (Result.ExitCode res),
         OutputFiles = [], StdoutDigest = None, StderrDigest = None,
         StdoutRaw = [], StderrRaw = []\<rparr> (Server e) st = Some (ar, st1)"
    and sv: "deref (Servers st1) (Server e) = Some sv"
    and ex1: "deref (Execs st1) (Exec sv) = Some ex1"
    and sw: "Set_switch D e res acDg ar
         (st1\<lparr>Execs := put_at (Execs st1) (Exec sv) (ex1\<lparr>ActionResult := Some ar\<rparr>)\<rparr>) = Some st'"
    by blast
  let ?st2 = "st1\<lparr>Execs := put_at (Execs st1) (Exec sv) (ex1\<lparr>ActionResult := Some ar\<rparr>)\<rparr>"
  have ex2: "deref (Execs ?st2) (Exec sv) = Some (ex1\<lparr>ActionResult := Some ar\<rparr>)"
    using ex1 by (simp add: deref_put_at_same)
  have sv2: "deref (Servers ?st2) (Server e) = Some sv"
    using sv by simp
  have sw': "(if \<not> Cached ex1 then ActionCache_Put (ActionCache sv) acDg ar ?st2 else Some ?st2) = Some st'"
    using Set_switch_CacheHit [OF assms(1) sv2 ex2, of D acDg ar] sw by simp
  have ac1: "ActionCaches st1 = ActionCaches st"
    using apply_opts_frame [OF opts] by simp
  have execs: "Execs st' = Execs ?st2"
    using sw' by (auto simp: ActionCache_Put_Some split: if_splits)
  have a: "\<not> Cached ex1 \<longrightarrow>
          (\<exists>c. deref (ActionCaches st) (ActionCache sv) = Some c
             \<and> ActionCaches st' =
                 put_at (ActionCaches st) (ActionCache sv) (c\<lparr>results := (results c)(acDg \<mapsto> ar)\<rparr>))"
    using sw' ac1 by (auto simp: ActionCache_Put_Some)
  have b: "Cached ex1 \<longrightarrow> ActionCaches st' = ActionCaches st"
    using sw' ac1 by auto
  from opts sv ex1 ex2 execs a b show ?thesis by auto
qed

theorem C1_witness:
  "Result.Status (example_res CacheHitResultStatus (Inr ''boom'')) = CacheHitResultStatus
   \<and> TestEnv_Set example_Deps example_TestEnv (example_cmd [''a''] 0) example_opt
         (example_res CacheHitResultStatus (Inr ''boom'')) [StdOutRaw ''hi''] example_Store =
       Returned example_cmdDg example_acDg ((example_cmd [''a''] 0)\<lparr>Command.ExecRoot := ''/''\<rparr>)
         (example_Store\<lparr>ActionCaches := [\<lparr>results = [example_acDg \<mapsto> example_ar\<lparr>StdoutRaw := ''hi''\<rparr>]\<rparr>],
            Execs := [example_Exec (Some (example_ar\<lparr>StdoutRaw := ''hi''\<rparr>)) None False []]\<rparr>)
   \<and> TestEnv_Set example_Deps example_TestEnv (example_cmd [''a''] 0) example_opt
         (example_res CacheHitResultStatus (Inr ''boom'')) [ExecutionCacheHit True] example_Store =
       Returned example_cmdDg example_acDg ((example_cmd [''a''] 0)\<lparr>Command.ExecRoot := ''/''\<rparr>)
         (example_Store\<lparr>Execs := [example_Exec (Some example_ar) None True []]\<rparr>)
   \<and> ActionCaches (example_Store\<lparr>Execs := [example_Exec (Some example_ar) None True []]\<rparr>) =
       ActionCaches example_Store
   \<and> deref (ActionCaches example_Store) (Some 0) = Some \<lparr>results = Map.empty\<rparr>"
proof -
  have s: "Result.Status (example_res CacheHitResultStatus (Inr ''boom'')) = CacheHitResultStatus"
    by (simp add: example_defs)
  have h1: "TestEnv_Set example_Deps example_TestEnv (example_cmd [''a''] 0) example_opt
         (example_res CacheHitResultStatus (Inr ''boom'')) [StdOutRaw ''hi''] example_Store =
       Returned example_cmdDg example_acDg ((example_cmd [''a''] 0)\<lparr>Command.ExecRoot := ''/''\<rparr>)
         (example_Store\<lparr>ActionCaches := [\<lparr>results = [example_acDg \<mapsto> example_ar\<lparr>StdoutRaw := ''hi''\<rparr>]\<rparr>],
            Execs := [example_Exec (Some (example_ar\<lparr>StdoutRaw := ''hi''\<rparr>)) None False []]\<rparr>)"
    by (simp add: example_defs eval_defs)
  have h2: "TestEnv_Set example_Deps example_TestEnv (example_cmd [''a''] 0) example_opt
         (example_res CacheHitResultStatus (Inr ''boom'')) [ExecutionCacheHit True] example_Store =
       Returned example_cmdDg example_acDg ((example_cmd [''a''] 0)\<lparr>Command.ExecRoot := ''/''\<rparr>)
         (example_Store\<lparr>Execs := [example_Exec (Some example_ar) None True []]\<rparr>)"
    by (simp add: example_defs eval_defs)
  have g: "ActionCaches (example_Store\<lparr>Execs := [example_Exec (Some example_ar) None True []]\<rparr>) =
       ActionCaches example_Store
   \<and> deref (ActionCaches example_Store) (Some 0) = Some \<lparr>results = Map.empty\<rparr>"
    by (simp add: example_defs eval_defs)
  from C1_cache_hit_writes_action_cache_unless_cached [OF s h1]
    C1_cache_hit_writes_action_cache_unless_cached [OF s h2]
  show ?thesis
    by - (intro conjI s h1 h2 g [THEN conjunct1] g [THEN conjunct2])
qed

subsection \<open>C2: the Action behind the returned digest\<close>

text \<open>
  Claim C2. When \<^verbatim>\<open>Set\<close> returns, the returned action digest is the digest of an
  \<^verbatim>\<open>Action\<close> whose command digest is the returned command digest, whose input root
  is the root digest of the packaged input tree, whose \<^verbatim>\<open>DoNotCache\<close> is
  \<^verbatim>\<open>opt.DoNotCache\<close>, and whose timeout is set exactly when the timeout of the
  (defaulted) command is positive, to that duration. The digest returned is this one:
  nothing that happens later in the call changes it.
\<close>

theorem C2_action_fields_and_digest:
  assumes "TestEnv_Set D e cmd opt res opts st = Returned cmdDg acDg cmd' st'"
  shows "\<exists>ft root a.
      cmd' = FillDefaultFieldValues D cmd
    \<and> BuildTreeFromInputs D (Command.ExecRoot cmd') (InputSpec cmd') = Inr ft
    \<and> PackageTree D ft = Inr root
    \<and> cmdDg = TestNewFromMessage D (CommandMsg (ToREProto D cmd'))
    \<and> acDg = TestNewFromMessage D (ActionMsg a)
    \<and> CommandDigest a = Some cmdDg
    \<and> InputRootDigest a = Some root
    \<and> Action.DoNotCache a = ExecutionOptions.DoNotCache opt
    \<and> (Action.Timeout a \<noteq> None \<longleftrightarrow> 0 <s Command.Timeout cmd')
    \<and> (0 <s Command.Timeout cmd' \<longrightarrow> Action.Timeout a = DurationProto (Command.Timeout cmd'))"
proof -
  from Set_Returned_D [OF assms] obtain ft root where
    "cmd' = FillDefaultFieldValues D cmd"
    "BuildTreeFromInputs D (Command.ExecRoot cmd') (InputSpec cmd') = Inr ft"
    "PackageTree D ft = Inr root"
    "cmdDg = TestNewFromMessage D (CommandMsg (ToREProto D cmd'))"
    "acDg = TestNewFromMessage D (ActionMsg
         \<lparr>CommandDigest = Some cmdDg, InputRootDigest = Some root,
          Action.Timeout = (if 0 <s Command.Timeout cmd'
                            then DurationProto (Command.Timeout cmd') else None),
          Action.DoNotCache = ExecutionOptions.DoNotCache opt\<rparr>)"
    by blast
  then show ?thesis
    by (intro exI [of _ ft] exI [of _ root]
        exI [of _ "\<lparr>CommandDigest = Some cmdDg, InputRootDigest = Some root,
          Action.Timeout = (if 0 <s Command.Timeout cmd'
                            then DurationProto (Command.Timeout cmd') else None),
          Action.DoNotCache = ExecutionOptions.DoNotCache opt\<rparr>"])
       (simp add: DurationProto_def Let_def)
qed

theorem C2_witness:
  "TestEnv_Set example_Deps example_TestEnv (example_cmd [''a''] 5) example_opt
         (example_res SuccessResultStatus (Inr ''boom'')) [] example_Store =
       Returned example_cmdDg \<lparr>Hash = ''/a'', Size = 3\<rparr> ((example_cmd [''a''] 5)\<lparr>Command.ExecRoot := ''/''\<rparr>)
         (example_Store\<lparr>Execs := [example_Exec (Some example_ar) None False []]\<rparr>)
   \<and> TestEnv_Set example_Deps example_TestEnv (example_cmd [''a''] 0) example_opt
         (example_res SuccessResultStatus (Inr ''boom'')) [] example_Store =
       Returned example_cmdDg example_acDg ((example_cmd [''a''] 0)\<lparr>Command.ExecRoot := ''/''\<rparr>)
         (example_Store\<lparr>Execs := [example_Exec (Some example_ar) None False []]\<rparr>)
   \<and> PackageTree example_Deps [''/a''] = Inr \<lparr>Hash = ''/a'', Size = 1\<rparr>
   \<and> TestNewFromMessage example_Deps (ActionMsg
         \<lparr>CommandDigest = Some example_cmdDg, InputRootDigest = Some \<lparr>Hash = ''/a'', Size = 1\<rparr>,
          Action.Timeout = DurationProto 5, Action.DoNotCache = False\<rparr>) = \<lparr>Hash = ''/a'', Size = 3\<rparr>
   \<and> TestNewFromMessage example_Deps (ActionMsg
         \<lparr>CommandDigest = Some example_cmdDg, InputRootDigest = Some \<lparr>Hash = ''/a'', Size = 1\<rparr>,
          Action.Timeout = None, Action.DoNotCache = False\<rparr>) = example_acDg"
proof -
  have h: "TestEnv_Set example_Deps example_TestEnv (example_cmd [''a''] 5) example_opt
         (example_res SuccessResultStatus (Inr ''boom'')) [] example_Store =
       Returned example_cmdDg \<lparr>Hash = ''/a'', Size = 3\<rparr> ((example_cmd [''a''] 5)\<lparr>Command.ExecRoot := ''/''\<rparr>)
         (example_Store\<lparr>Execs := [example_Exec (Some example_ar) None False []]\<rparr>)"
    by (simp add: example_defs eval_defs word_sless_alt DurationProto_def)
  have h0: "TestEnv_Set example_Deps example_TestEnv (example_cmd [''a''] 0) example_opt
         (example_res SuccessResultStatus (Inr ''boom'')) [] example_Store =
       Returned example_cmdDg example_acDg ((example_cmd [''a''] 0)\<lparr>Command.ExecRoot := ''/''\<rparr>)
         (example_Store\<lparr>Execs := [example_Exec (Some example_ar) None False []]\<rparr>)"
    by (simp add: example_defs eval_defs)
  have g: "PackageTree example_Deps [''/a''] = Inr \<lparr>Hash = ''/a'', Size = 1\<rparr>
   \<and> TestNewFromMessage example_Deps (ActionMsg
         \<lparr>CommandDigest = Some example_cmdDg, InputRootDigest = Some \<lparr>Hash = ''/a'', Size = 1\<rparr>,
          Action.Timeout = DurationProto 5, Action.DoNotCache = False\<rparr>) = \<lparr>Hash = ''/a'', Size = 3\<rparr>
   \<and> TestNewFromMessage example_Deps (ActionMsg
         \<lparr>CommandDigest = Some example_cmdDg, InputRootDigest = Some \<lparr>Hash = ''/a'', Size = 1\<rparr>,
          Action.Timeout = None, Action.DoNotCache = False\<rparr>) = example_acDg"
    by (simp add: example_defs DurationProto_def Let_def)
  from C2_action_fields_and_digest [OF h] C2_action_fields_and_digest [OF h0]
  show ?thesis
    by - (intro conjI h h0 g [THEN conjunct1] g [THEN conjunct2, THEN conjunct1]
        g [THEN conjunct2, THEN conjunct2])
qed

subsection \<open>C3: the status Set configures\<close>

text \<open>
  Claim C3. When \<^verbatim>\<open>Set\<close> returns, the \<^verbatim>\<open>Exec\<close> of the server has: for
  \<^verbatim>\<open>TimeoutResultStatus\<close> the status \<^verbatim>\<open>DeadlineExceeded\<close> with message "timeout"; for
  \<^verbatim>\<open>RemoteErrorResultStatus\<close> the status that \<^verbatim>\<open>status.FromError(res.Err)\<close> gives when
  it reports \<^verbatim>\<open>ok\<close>, and otherwise \<^verbatim>\<open>Internal\<close> with message "remote error". No
  branch of the switch is for \<^verbatim>\<open>LocalErrorResultStatus\<close> or
  \<^verbatim>\<open>InterruptedResultStatus\<close>: with either, the call does exactly what it does for
  \<^verbatim>\<open>SuccessResultStatus\<close>, every \<^verbatim>\<open>Exec.Status\<close> in the store is what it was before
  the call, and so are the action caches.
\<close>

theorem C3_status_configured_by_Set:
  assumes "TestEnv_Set D e cmd opt res opts st = Returned cmdDg acDg cmd' st'"
  shows "\<exists>sv ex.
      deref (Servers st') (Server e) = Some sv
    \<and> deref (Execs st') (Exec sv) = Some ex
    \<and> (Result.Status res = TimeoutResultStatus \<longrightarrow>
         Exec.Status ex = Some \<lparr>Code = DeadlineExceeded, Message = ''timeout''\<rparr>)
    \<and> (Result.Status res = RemoteErrorResultStatus \<longrightarrow>
         Exec.Status ex =
           (if snd (FromError D (Err res)) then fst (FromError D (Err res))
            else Some \<lparr>Code = Internal, Message = ''remote error''\<rparr>))
    \<and> (Result.Status res = LocalErrorResultStatus \<or> Result.Status res = InterruptedResultStatus \<longrightarrow>
         TestEnv_Set D e cmd opt (res\<lparr>Result.Status := SuccessResultStatus\<rparr>) opts st =
           Returned cmdDg acDg cmd' st'
         \<and> map Exec.Status (Execs st') = map Exec.Status (Execs st)
         \<and> ActionCaches st' = ActionCaches st)"
proof -
  from Set_Returned_D [OF assms] obtain ar st1 sv ex1 where
    opts: "apply_opts (digestOf D) opts
        \<lparr>ActionResult.ExitCode = ucast (Result.ExitCode res),
         OutputFiles = [], StdoutDigest = None, StderrDigest = None,
         StdoutRaw = [], StderrRaw = []\<rparr> (Server e) st = Some (ar, st1)"
    and sv: "deref (Servers st1) (Server e) = Some sv"
    and ex1: "deref (Execs st1) (Exec sv) = Some ex1"
    and sw: "Set_switch D e res acDg ar
         (st1\<lparr>Execs := put_at (Execs st1) (Exec sv) (ex1\<lparr>ActionResult := Some ar\<rparr>)\<rparr>) = Some st'"
    by blast
  let ?st2 = "st1\<lparr>Execs := put_at (Execs st1) (Exec sv) (ex1\<lparr>ActionResult := Some ar\<rparr>)\<rparr>"
  have ex2: "deref (Execs ?st2) (Exec sv) = Some (ex1\<lparr>ActionResult := Some ar\<rparr>)"
    using ex1 by (simp add: deref_put_at_same)
  have sv2: "deref (Servers ?st2) (Server e) = Some sv"
    using sv by simp
  note eff = Set_switch_effect [OF sv2 ex2 sw]
  have st12: "map Exec.Status (Execs ?st2) = map Exec.Status (Execs st)"
    using apply_opts_Status [OF opts] ex1 by (simp add: map_put_at_same)
  have ac12: "ActionCaches ?st2 = ActionCaches st"
    using apply_opts_frame [OF opts] by simp
  have a: "deref (Servers st') (Server e) = Some sv"
    using eff sv2 by simp
  have b: "Result.Status res = TimeoutResultStatus \<longrightarrow>
      (\<exists>ex. deref (Execs st') (Exec sv) = Some ex
         \<and> Exec.Status ex = Some \<lparr>Code = DeadlineExceeded, Message = ''timeout''\<rparr>)"
    using eff by simp
  have c: "Result.Status res = RemoteErrorResultStatus \<longrightarrow>
      (\<exists>ex. deref (Execs st') (Exec sv) = Some ex
         \<and> Exec.Status ex = (if snd (FromError D (Err res)) then fst (FromError D (Err res))
            else Some \<lparr>Code = Internal, Message = ''remote error''\<rparr>))"
    using eff by simp
  have d: "Result.Status res = LocalErrorResultStatus \<or> Result.Status res = InterruptedResultStatus \<longrightarrow>
         TestEnv_Set D e cmd opt (res\<lparr>Result.Status := SuccessResultStatus\<rparr>) opts st =
           Returned cmdDg acDg cmd' st'
         \<and> map Exec.Status (Execs st') = map Exec.Status (Execs st)
         \<and> ActionCaches st' = ActionCaches st"
  proof
    assume s: "Result.Status res = LocalErrorResultStatus \<or> Result.Status res = InterruptedResultStatus"
    then have "Execs st' = Execs ?st2" "ActionCaches st' = ActionCaches ?st2"
      using eff by auto
    with st12 ac12 Set_status_ignored [OF s, of D e cmd opt opts st] assms
    show "TestEnv_Set D e cmd opt (res\<lparr>Result.Status := SuccessResultStatus\<rparr>) opts st =
           Returned cmdDg acDg cmd' st'
         \<and> map Exec.Status (Execs st') = map Exec.Status (Execs st)
         \<and> ActionCaches st' = ActionCaches st"
      by simp
  qed
  obtain ex where e: "deref (Execs st') (Exec sv) = Some ex"
    using eff by blast
  with a b c d show ?thesis by auto
qed

theorem C3_witness:
  "TestEnv_Set example_Deps example_TestEnv (example_cmd [''a''] 0) example_opt
         (example_res TimeoutResultStatus (Inr ''boom'')) [] example_Store =
       Returned example_cmdDg example_acDg ((example_cmd [''a''] 0)\<lparr>Command.ExecRoot := ''/''\<rparr>)
         (example_Store\<lparr>Execs := [example_Exec (Some example_ar) (Some \<lparr>Code = DeadlineExceeded, Message = ''timeout''\<rparr>) False []]\<rparr>)
   \<and> TestEnv_Set example_Deps example_TestEnv (example_cmd [''a''] 0) example_opt
         (example_res RemoteErrorResultStatus (Inr ''boom'')) [] example_Store =
       Returned example_cmdDg example_acDg ((example_cmd [''a''] 0)\<lparr>Command.ExecRoot := ''/''\<rparr>)
         (example_Store\<lparr>Execs := [example_Exec (Some example_ar) (Some \<lparr>Code = Internal, Message = ''remote error''\<rparr>) False []]\<rparr>)
   \<and> TestEnv_Set example_Deps example_TestEnv (example_cmd [''a''] 0) example_opt
         (example_res RemoteErrorResultStatus (Inl \<lparr>Code = NotFound, Message = ''gone''\<rparr>)) [] example_Store =
       Returned example_cmdDg example_acDg ((example_cmd [''a''] 0)\<lparr>Command.ExecRoot := ''/''\<rparr>)
         (example_Store\<lparr>Execs := [example_Exec (Some example_ar) (Some \<lparr>Code = NotFound, Message = ''gone''\<rparr>) False []]\<rparr>)
   \<and> TestEnv_Set example_Deps example_TestEnv (example_cmd [''a''] 0) example_opt
         (example_res LocalErrorResultStatus (Inr ''boom'')) [] example_Store =
       Returned example_cmdDg example_acDg ((example_cmd [''a''] 0)\<lparr>Command.ExecRoot := ''/''\<rparr>)
         (example_Store\<lparr>Execs := [example_Exec (Some example_ar) None False []]\<rparr>)
   \<and> TestEnv_Set example_Deps example_TestEnv (example_cmd [''a''] 0) example_opt
         (example_res SuccessResultStatus (Inr ''boom'')) [] example_Store =
       Returned example_cmdDg example_acDg ((example_cmd [''a''] 0)\<lparr>Command.ExecRoot := ''/''\<rparr>)
         (example_Store\<lparr>Execs := [example_Exec (Some example_ar) None False []]\<rparr>)"
proof -
  have t: "TestEnv_Set example_Deps example_TestEnv (example_cmd [''a''] 0) example_opt
         (example_res TimeoutResultStatus (Inr ''boom'')) [] example_Store =
       Returned example_cmdDg example_acDg ((example_cmd [''a''] 0)\<lparr>Command.ExecRoot := ''/''\<rparr>)
         (example_Store\<lparr>Execs := [example_Exec (Some example_ar) (Some \<lparr>Code = DeadlineExceeded, Message = ''timeout''\<rparr>) False []]\<rparr>)"
    by (simp add: example_defs eval_defs)
  have r: "TestEnv_Set example_Deps example_TestEnv (example_cmd [''a''] 0) example_opt
         (example_res RemoteErrorResultStatus (Inr ''boom'')) [] example_Store =
       Returned example_cmdDg example_acDg ((example_cmd [''a''] 0)\<lparr>Command.ExecRoot := ''/''\<rparr>)
         (example_Store\<lparr>Execs := [example_Exec (Some example_ar) (Some \<lparr>Code = Internal, Message = ''remote error''\<rparr>) False []]\<rparr>)"
    by (simp add: example_defs eval_defs)
  have g: "TestEnv_Set example_Deps example_TestEnv (example_cmd [''a''] 0) example_opt
         (example_res RemoteErrorResultStatus (Inl \<lparr>Code = NotFound, Message = ''gone''\<rparr>)) [] example_Store =
       Returned example_cmdDg example_acDg ((example_cmd [''a''] 0)\<lparr>Command.ExecRoot := ''/''\<rparr>)
         (example_Store\<lparr>Execs := [example_Exec (Some example_ar) (Some \<lparr>Code = NotFound, Message = ''gone''\<rparr>) False []]\<rparr>)"
    by (simp add: example_defs eval_defs)
  have l: "TestEnv_Set example_Deps example_TestEnv (example_cmd [''a''] 0) example_opt
         (example_res LocalErrorResultStatus (Inr ''boom'')) [] example_Store =
       Returned example_cmdDg example_acDg ((example_cmd [''a''] 0)\<lparr>Command.ExecRoot := ''/''\<rparr>)
         (example_Store\<lparr>Execs := [example_Exec (Some example_ar) None False []]\<rparr>)"
    by (simp add: example_defs eval_defs)
  from C3_status_configured_by_Set [OF l]
  have "TestEnv_Set example_Deps example_TestEnv (example_cmd [''a''] 0) example_opt
         ((example_res LocalErrorResultStatus (Inr ''boom''))\<lparr>Result.Status := SuccessResultStatus\<rparr>) [] example_Store =
       Returned example_cmdDg example_acDg ((example_cmd [''a''] 0)\<lparr>Command.ExecRoot := ''/''\<rparr>)
         (example_Store\<lparr>Execs := [example_Exec (Some example_ar) None False []]\<rparr>)"
    by (auto simp: example_res_def)
  then have s: "TestEnv_Set example_Deps example_TestEnv (example_cmd [''a''] 0) example_opt
         (example_res SuccessResultStatus (Inr ''boom'')) [] example_Store =
       Returned example_cmdDg example_acDg ((example_cmd [''a''] 0)\<lparr>Command.ExecRoot := ''/''\<rparr>)
         (example_Store\<lparr>Execs := [example_Exec (Some example_ar) None False []]\<rparr>)"
    by (simp add: example_res_def)
  from C3_status_configured_by_Set [OF t] C3_status_configured_by_Set [OF r]
    C3_status_configured_by_Set [OF g]
  show ?thesis
    by - (intro conjI t r g l s)
qed

subsection \<open>C4: what the output options do\<close>

text \<open>
  Claim C4. On a server whose \<^verbatim>\<open>Exec\<close> and \<^verbatim>\<open>CAS\<close> are allocated, applying
  \<^verbatim>\<open>OutputFile\<close>, \<^verbatim>\<open>StdOut\<close> or \<^verbatim>\<open>StdErr\<close> with contents \<open>bytes\<close> stores the bytes
  in the CAS under their digest, appends them to \<^verbatim>\<open>Exec.OutputBlobs\<close>, changes nothing
  else in the store, and records the digest in the \<^verbatim>\<open>ActionResult\<close>: as a new last
  entry of \<^verbatim>\<open>OutputFiles\<close> with the option's path, as \<^verbatim>\<open>StdoutDigest\<close>, or as
  \<^verbatim>\<open>StderrDigest\<close>. Applying \<^verbatim>\<open>StdOutRaw\<close> or \<^verbatim>\<open>StdErrRaw\<close> puts the bytes into
  \<^verbatim>\<open>StdoutRaw\<close> or \<^verbatim>\<open>StderrRaw\<close> and leaves the whole store as it is (on any
  server, allocated or not).
\<close>

theorem C4_output_options_store_and_record:
  assumes "deref (Servers st) s = Some sv"
    and "deref (Execs st) (Exec sv) = Some ex"
    and "deref (CASs st) (CAS sv) = Some c"
  shows "\<exists>st'.
      st' = st\<lparr>Execs := put_at (Execs st) (Exec sv) (ex\<lparr>OutputBlobs := OutputBlobs ex @ [bytes]\<rparr>),
                CASs := put_at (CASs st) (CAS sv) (c\<lparr>blobs := (blobs c)(dgOf bytes \<mapsto> bytes)\<rparr>)\<rparr>
    \<and> Apply dgOf (OutputFile path bytes) ar s st =
          Some (ar\<lparr>OutputFiles := OutputFiles ar @ [\<lparr>Path = path, Digest = Some (dgOf bytes)\<rparr>]\<rparr>, st')
    \<and> Apply dgOf (StdOut bytes) ar s st = Some (ar\<lparr>StdoutDigest := Some (dgOf bytes)\<rparr>, st')
    \<and> Apply dgOf (StdErr bytes) ar s st = Some (ar\<lparr>StderrDigest := Some (dgOf bytes)\<rparr>, st')
    \<and> (\<exists>c'. deref (CASs st') (CAS sv) = Some c' \<and> blobs c' (dgOf bytes) = Some bytes)
    \<and> (\<exists>ex'. deref (Execs st') (Exec sv) = Some ex' \<and> OutputBlobs ex' = OutputBlobs ex @ [bytes])
    \<and> Apply dgOf (StdOutRaw bytes) ar s st = Some (ar\<lparr>StdoutRaw := bytes\<rparr>, st)
    \<and> Apply dgOf (StdErrRaw bytes) ar s st = Some (ar\<lparr>StderrRaw := bytes\<rparr>, st)"
  using assms
  by (simp add: OutputFile_Apply_def StdOut_Apply_def StdOutRaw_Apply_def StdErr_Apply_def
        StdErrRaw_Apply_def CAS_Put_def ToProto_def Let_def deref_put_at_same)

theorem C4_witness:
  "deref (Servers example_Store) (Some 0) = Some example_Server
   \<and> deref (Execs example_Store) (Exec example_Server) = Some (example_Exec None None False [])
   \<and> deref (CASs example_Store) (CAS example_Server) = Some \<lparr>blobs = Map.empty\<rparr>
   \<and> Apply (digestOf example_Deps) (OutputFile ''a.out'' ''hi'') example_ar (Some 0) example_Store =
       Some (example_ar\<lparr>OutputFiles :=
               [\<lparr>Path = ''a.out'', Digest = Some \<lparr>Hash = ''hi'', Size = 2\<rparr>\<rparr>]\<rparr>,
             example_Store\<lparr>Execs := [example_Exec None None False [''hi'']],
               CASs := [\<lparr>blobs = [\<lparr>Hash = ''hi'', Size = 2\<rparr> \<mapsto> ''hi'']\<rparr>]\<rparr>)
   \<and> Apply (digestOf example_Deps) (StdOutRaw ''hi'') example_ar (Some 0) example_Store =
       Some (example_ar\<lparr>StdoutRaw := ''hi''\<rparr>, example_Store)"
proof -
  have sv: "deref (Servers example_Store) (Some 0) = Some example_Server"
    and ex: "deref (Execs example_Store) (Exec example_Server) = Some (example_Exec None None False [])"
    and c: "deref (CASs example_Store) (CAS example_Server) = Some \<lparr>blobs = Map.empty\<rparr>"
    by (simp_all add: example_defs eval_defs)
  have g: "Apply (digestOf example_Deps) (OutputFile ''a.out'' ''hi'') example_ar (Some 0) example_Store =
       Some (example_ar\<lparr>OutputFiles :=
               [\<lparr>Path = ''a.out'', Digest = Some \<lparr>Hash = ''hi'', Size = 2\<rparr>\<rparr>]\<rparr>,
             example_Store\<lparr>Execs := [example_Exec None None False [''hi'']],
               CASs := [\<lparr>blobs = [\<lparr>Hash = ''hi'', Size = 2\<rparr> \<mapsto> ''hi'']\<rparr>]\<rparr>)
   \<and> Apply (digestOf example_Deps) (StdOutRaw ''hi'') example_ar (Some 0) example_Store =
       Some (example_ar\<lparr>StdoutRaw := ''hi''\<rparr>, example_Store)"
    by (simp add: example_defs eval_defs numeral_2_eq_2)
  from C4_output_options_store_and_record [OF sv ex c]
  show ?thesis
    by - (intro conjI sv ex c g [THEN conjunct1] g [THEN conjunct2])
qed

subsection \<open>C5: Clear\<close>

text \<open>
  Claim C5. On a server whose three components are allocated, \<^verbatim>\<open>Clear\<close> returns,
  and afterwards the CAS and the action cache of the server hold no entry and its
  \<^verbatim>\<open>Exec\<close> has no result, no status, no cache-hit flag and no output blobs. The
  server objects themselves, with their listener and gRPC server, are unchanged, and
  so is every other CAS, action cache and \<^verbatim>\<open>Exec\<close> in the store.
\<close>

theorem C5_Clear_clears_components_only:
  assumes "valid_Server s st"
  shows "\<exists>sv st' c a ex.
      deref (Servers st) s = Some sv
    \<and> Server_Clear s st = Some st'
    \<and> Servers st' = Servers st
    \<and> deref (CASs st') (CAS sv) = Some c \<and> blobs c = Map.empty
    \<and> deref (ActionCaches st') (ActionCache sv) = Some a \<and> results a = Map.empty
    \<and> deref (Execs st') (Exec sv) = Some ex
    \<and> ActionResult ex = None \<and> Exec.Status ex = None \<and> \<not> Cached ex \<and> OutputBlobs ex = []
    \<and> (\<forall>p. p \<noteq> CAS sv \<longrightarrow> deref (CASs st') p = deref (CASs st) p)
    \<and> (\<forall>p. p \<noteq> ActionCache sv \<longrightarrow> deref (ActionCaches st') p = deref (ActionCaches st) p)
    \<and> (\<forall>p. p \<noteq> Exec sv \<longrightarrow> deref (Execs st') p = deref (Execs st) p)"
proof -
  from assms obtain sv c a ex where
    sv: "deref (Servers st) s = Some sv"
    and c: "deref (CASs st) (CAS sv) = Some c"
    and a: "deref (ActionCaches st) (ActionCache sv) = Some a"
    and ex: "deref (Execs st) (Exec sv) = Some ex"
    by (auto simp: valid_Server_def split: option.splits)
  from Server_Clear_valid [OF sv c a ex] sv c a ex show ?thesis
    by (simp add: deref_put_at_same deref_put_at_other)
qed

theorem C5_witness:
  "valid_Server (Some 0)
     (example_Store\<lparr>
        CASs := [\<lparr>blobs = [\<lparr>Hash = ''hi'', Size = 2\<rparr> \<mapsto> ''hi'']\<rparr>],
        ActionCaches := [\<lparr>results = [example_acDg \<mapsto> example_ar]\<rparr>],
        Execs := [example_Exec (Some example_ar)
                    (Some \<lparr>Code = DeadlineExceeded, Message = ''timeout''\<rparr>) True [''hi'']]\<rparr>)
   \<and> Server_Clear (Some 0)
     (example_Store\<lparr>
        CASs := [\<lparr>blobs = [\<lparr>Hash = ''hi'', Size = 2\<rparr> \<mapsto> ''hi'']\<rparr>],
        ActionCaches := [\<lparr>results = [example_acDg \<mapsto> example_ar]\<rparr>],
        Execs := [example_Exec (Some example_ar)
                    (Some \<lparr>Code = DeadlineExceeded, Message = ''timeout''\<rparr>) True [''hi'']]\<rparr>) =
     Some example_Store"
proof -
  have v: "valid_Server (Some 0)
     (example_Store\<lparr>
        CASs := [\<lparr>blobs = [\<lparr>Hash = ''hi'', Size = 2\<rparr> \<mapsto> ''hi'']\<rparr>],
        ActionCaches := [\<lparr>results = [example_acDg \<mapsto> example_ar]\<rparr>],
        Execs := [example_Exec (Some example_ar)
                    (Some \<lparr>Code = DeadlineExceeded, Message = ''timeout''\<rparr>) True [''hi'']]\<rparr>)"
    by (simp add: valid_Server_def example_defs eval_defs)
  have g: "Server_Clear (Some 0)
     (example_Store\<lparr>
        CASs := [\<lparr>blobs = [\<lparr>Hash = ''hi'', Size = 2\<rparr> \<mapsto> ''hi'']\<rparr>],
        ActionCaches := [\<lparr>results = [example_acDg \<mapsto> example_ar]\<rparr>],
        Execs := [example_Exec (Some example_ar)
                    (Some \<lparr>Code = DeadlineExceeded, Message = ''timeout''\<rparr>) True [''hi'']]\<rparr>) =
     Some example_Store"
    by (simp add: example_defs eval_defs)
  from C5_Clear_clears_components_only [OF v]
  show ?thesis
    by - (intro conjI v g)
qed

subsection \<open>C6: NewServer\<close>

text \<open>
  Claim C6. In a store without dangling pointers, a call of \<^verbatim>\<open>NewServer\<close> adds one
  server, one CAS, one action cache and one \<^verbatim>\<open>Exec\<close> to the store and changes no
  object that was there. The three pointers of the new server are the addresses of the
  three new objects, which no server and no \<^verbatim>\<open>Exec\<close> made before holds; the new
  components record nothing; and the new \<^verbatim>\<open>Exec\<close> is built over the very action cache
  and CAS that are the server's \<^verbatim>\<open>ActionCache\<close> and \<^verbatim>\<open>CAS\<close> fields. The store stays
  free of dangling pointers, so the same holds of the next call.
\<close>

theorem C6_NewServer_allocates_fresh_components:
  assumes "wf_Store st"
    and "NewServer listen st = (r, st')"
  shows "\<exists>sv ex.
      Servers st' = Servers st @ [sv]
    \<and> (case listen of Inl err \<Rightarrow> r = Inl err
        | Inr l \<Rightarrow> r = Inr (Some (length (Servers st))))
    \<and> CAS sv = Some (length (CASs st))
    \<and> ActionCache sv = Some (length (ActionCaches st))
    \<and> Exec sv = Some (length (Execs st))
    \<and> CASs st' = CASs st @ [\<lparr>blobs = Map.empty\<rparr>]
    \<and> ActionCaches st' = ActionCaches st @ [\<lparr>results = Map.empty\<rparr>]
    \<and> Execs st' = Execs st @ [ex]
    \<and> ac_ptr ex = ActionCache sv \<and> cas_ptr ex = CAS sv
    \<and> ActionResult ex = None \<and> Exec.Status ex = None \<and> \<not> Cached ex \<and> OutputBlobs ex = []
    \<and> (\<forall>old \<in> set (Servers st).
          Exec old \<noteq> Exec sv \<and> CAS old \<noteq> CAS sv \<and> ActionCache old \<noteq> ActionCache sv)
    \<and> (\<forall>old \<in> set (Execs st). ac_ptr old \<noteq> ActionCache sv \<and> cas_ptr old \<noteq> CAS sv)
    \<and> wf_Store st'"
proof -
  have old_sv: "\<forall>old \<in> set (Servers st).
      Exec old \<noteq> Some (length (Execs st)) \<and> CAS old \<noteq> Some (length (CASs st))
      \<and> ActionCache old \<noteq> Some (length (ActionCaches st))"
    using assms(1) by (auto simp: wf_Store_def dest: ptr_ok_fresh)
  have old_ex: "\<forall>old \<in> set (Execs st).
      ac_ptr old \<noteq> Some (length (ActionCaches st)) \<and> cas_ptr old \<noteq> Some (length (CASs st))"
    using assms(1) by (auto simp: wf_Store_def dest: ptr_ok_fresh)
  have wf: "wf_Store st'"
    using assms
    by (cases listen)
       (auto simp: NewServer_unfold Let_def wf_Store_def ptr_ok_new ptr_ok_append)
  from assms(2) old_sv old_ex wf show ?thesis
    by (cases listen) (auto simp: NewServer_unfold Let_def)
qed

theorem C6_witness:
  "wf_Store empty_Store
   \<and> NewServer (Inr example_Listener) empty_Store = (Inr (Some 0), example_Store)
   \<and> Servers example_Store = [example_Server]
   \<and> wf_Store example_Store
   \<and> NewServer (Inl ''listen tcp :0: too many open files'') example_Store =
       (Inl ''listen tcp :0: too many open files'',
        example_Store\<lparr>
          CASs := CASs example_Store @ [\<lparr>blobs = Map.empty\<rparr>],
          ActionCaches := ActionCaches example_Store @ [\<lparr>results = Map.empty\<rparr>],
          Execs := Execs example_Store @
            [\<lparr>ac_ptr = Some 1, cas_ptr = Some 1, ActionResult = None, Status = None,
              Cached = False, OutputBlobs = []\<rparr>],
          Servers := Servers example_Store @
            [\<lparr>Exec = Some 1, CAS = Some 1, ActionCache = Some 1, listener = None, srv = None\<rparr>]\<rparr>)"
proof -
  have w0: "wf_Store empty_Store"
    by (simp add: wf_Store_def empty_Store_def)
  have n0: "NewServer (Inr example_Listener) empty_Store = (Inr (Some 0), example_Store)"
    by (simp add: example_defs eval_defs)
  have sv: "Servers example_Store = [example_Server]"
    by (simp add: example_defs eval_defs)
  have w1: "wf_Store example_Store"
    using C6_NewServer_allocates_fresh_components [OF w0 n0] by blast
  have n1: "NewServer (Inl ''listen tcp :0: too many open files'') example_Store =
       (Inl ''listen tcp :0: too many open files'',
        example_Store\<lparr>
          CASs := CASs example_Store @ [\<lparr>blobs = Map.empty\<rparr>],
          ActionCaches := ActionCaches example_Store @ [\<lparr>results = Map.empty\<rparr>],
          Execs := Execs example_Store @
            [\<lparr>ac_ptr = Some 1, cas_ptr = Some 1, ActionResult = None, Status = None,
              Cached = False, OutputBlobs = []\<rparr>],
          Servers := Servers example_Store @
            [\<lparr>Exec = Some 1, CAS = Some 1, ActionCache = Some 1, listener = None, srv = None\<rparr>]\<rparr>)"
    by (simp add: example_defs eval_defs)
  from C6_NewServer_allocates_fresh_components [OF w1 n1]
  show ?thesis
    by - (intro conjI w0 n0 sv w1 n1)
qed

subsection \<open>C7: a tree that cannot be built\<close>

text \<open>
  Claim C7 says that when \<^verbatim>\<open>BuildTreeFromInputs\<close> or \<^verbatim>\<open>PackageTree\<close> fails, \<^verbatim>\<open>Set\<close>
  reports a fatal test failure, returns \<^verbatim>\<open>(digest.Empty, digest.Empty)\<close> and leaves
  the fake server as it was. The middle part does not hold: \<^verbatim>\<open>Fatalf\<close> ends the
  goroutine, so \<^verbatim>\<open>Set\<close> never gets to its \<^verbatim>\<open>return\<close> and hands no digests to the
  caller. What holds: the call ends in \<^verbatim>\<open>Fatalf\<close> with the message
  "error building input tree in fake setup: " followed by the error, whatever the
  options and the result are; no digests are returned; the store is the one the call
  started with (only the command has been defaulted).
\<close>

theorem C7_tree_error_is_fatal:
  assumes "BuildTreeFromInputs D (Command.ExecRoot (FillDefaultFieldValues D cmd))
             (InputSpec (FillDefaultFieldValues D cmd)) = Inl err
         \<or> (\<exists>ft. BuildTreeFromInputs D (Command.ExecRoot (FillDefaultFieldValues D cmd))
                   (InputSpec (FillDefaultFieldValues D cmd)) = Inr ft
                \<and> PackageTree D ft = Inl err)"
  shows "TestEnv_Set D e cmd opt res opts st =
           Fatal (''error building input tree in fake setup: '' @ err) (FillDefaultFieldValues D cmd) st
       \<and> returned_digests (TestEnv_Set D e cmd opt res opts st) = None"
  using assms by (auto simp: TestEnv_Set_def Let_def)

theorem C7_witness:
  "BuildTreeFromInputs example_Deps
         (Command.ExecRoot (FillDefaultFieldValues example_Deps (example_cmd [] 0)))
         (InputSpec (FillDefaultFieldValues example_Deps (example_cmd [] 0))) = Inl ''no inputs''
   \<and> TestEnv_Set example_Deps example_TestEnv (example_cmd [] 0) example_opt
         (example_res SuccessResultStatus (Inr ''boom'')) [StdOut ''hi''] example_Store =
       Fatal ''error building input tree in fake setup: no inputs''
         ((example_cmd [] 0)\<lparr>Command.ExecRoot := ''/''\<rparr>) example_Store
   \<and> BuildTreeFromInputs example_Deps
         (Command.ExecRoot (FillDefaultFieldValues example_Deps (example_cmd [''bad''] 0)))
         (InputSpec (FillDefaultFieldValues example_Deps (example_cmd [''bad''] 0))) = Inr [''/bad'']
   \<and> PackageTree example_Deps [''/bad''] = Inl ''unreadable''
   \<and> TestEnv_Set example_Deps example_TestEnv (example_cmd [''bad''] 0) example_opt
         (example_res SuccessResultStatus (Inr ''boom'')) [StdOut ''hi''] example_Store =
       Fatal ''error building input tree in fake setup: unreadable''
         ((example_cmd [''bad''] 0)\<lparr>Command.ExecRoot := ''/''\<rparr>) example_Store"
proof -
  have a: "BuildTreeFromInputs example_Deps
         (Command.ExecRoot (FillDefaultFieldValues example_Deps (example_cmd [] 0)))
         (InputSpec (FillDefaultFieldValues example_Deps (example_cmd [] 0))) = Inl ''no inputs''"
    by (simp add: example_defs)
  have b: "BuildTreeFromInputs example_Deps
         (Command.ExecRoot (FillDefaultFieldValues example_Deps (example_cmd [''bad''] 0)))
         (InputSpec (FillDefaultFieldValues example_Deps (example_cmd [''bad''] 0))) = Inr [''/bad'']"
    "PackageTree example_Deps [''/bad''] = Inl ''unreadable''"
    by (simp_all add: example_defs)
  from b have b': "\<exists>ft. BuildTreeFromInputs example_Deps
         (Command.ExecRoot (FillDefaultFieldValues example_Deps (example_cmd [''bad''] 0)))
         (InputSpec (FillDefaultFieldValues example_Deps (example_cmd [''bad''] 0))) = Inr ft
       \<and> PackageTree example_Deps ft = Inl ''unreadable''"
    by blast
  from C7_tree_error_is_fatal [OF disjI1, OF a, of example_TestEnv example_opt
      "example_res SuccessResultStatus (Inr ''boom'')" "[StdOut ''hi'']" example_Store]
    C7_tree_error_is_fatal [OF disjI2, OF b', of example_TestEnv example_opt
      "example_res SuccessResultStatus (Inr ''boom'')" "[StdOut ''hi'']" example_Store]
  have f1: "TestEnv_Set example_Deps example_TestEnv (example_cmd [] 0) example_opt
         (example_res SuccessResultStatus (Inr ''boom'')) [StdOut ''hi''] example_Store =
       Fatal ''error building input tree in fake setup: no inputs''
         ((example_cmd [] 0)\<lparr>Command.ExecRoot := ''/''\<rparr>) example_Store"
    and f2: "TestEnv_Set example_Deps example_TestEnv (example_cmd [''bad''] 0) example_opt
         (example_res SuccessResultStatus (Inr ''boom'')) [StdOut ''hi''] example_Store =
       Fatal ''error building input tree in fake setup: unreadable''
         ((example_cmd [''bad''] 0)\<lparr>Command.ExecRoot := ''/''\<rparr>) example_Store"
    by (simp_all add: example_defs)
  show ?thesis
    by (intro conjI a b f1 f2)
qed

theorem C7_counterexample:
  "BuildTreeFromInputs example_Deps
         (Command.ExecRoot (FillDefaultFieldValues example_Deps (example_cmd [] 0)))
         (InputSpec (FillDefaultFieldValues example_Deps (example_cmd [] 0))) = Inl ''no inputs''
   \<and> returned_digests (TestEnv_Set example_Deps example_TestEnv (example_cmd [] 0) example_opt
         (example_res SuccessResultStatus (Inr ''boom'')) [StdOut ''hi''] example_Store) \<noteq>
       Some (digest_Empty, digest_Empty)
   \<and> TestEnv_Set example_Deps example_TestEnv (example_cmd [] 0) example_opt
         (example_res SuccessResultStatus (Inr ''boom'')) [StdOut ''hi''] example_Store =
       Fatal ''error building input tree in fake setup: no inputs''
         ((example_cmd [] 0)\<lparr>Command.ExecRoot := ''/''\<rparr>) example_Store"
  by (simp add: example_defs eval_defs)

subsection \<open>C8: the order of the options\<close>

text \<open>
  Claim C8 says that the options are applied in the order given, each to the same
  \<^verbatim>\<open>ActionResult\<close> and server, all of them before the switch, and concludes that a
  call whose options include \<^verbatim>\<open>ExecutionCacheHit(true)\<close> sees \<^verbatim>\<open>Exec.Cached == true\<close>
  in the \<^verbatim>\<open>CacheHitResultStatus\<close> branch and writes no action cache entry. Because the
  options are applied in order, a later \<^verbatim>\<open>ExecutionCacheHit(false)\<close> undoes an
  earlier \<^verbatim>\<open>ExecutionCacheHit(true)\<close>, and the conclusion fails. What holds: when the
  last \<^verbatim>\<open>ExecutionCacheHit\<close> among the options is \<^verbatim>\<open>ExecutionCacheHit(true)\<close>
  (\<open>opts = pre @ ExecutionCacheHit True # post\<close> with no \<^verbatim>\<open>ExecutionCacheHit\<close> in
  \<open>post\<close>), a returning call with \<^verbatim>\<open>CacheHitResultStatus\<close> has applied all options
  first, the switch then runs on the store they have left, it finds
  \<^verbatim>\<open>Exec.Cached\<close> true, and the action caches after the call are those before it.
  That the loop goes through the options front to back, handing each the result and
  the store of the one before, is \<open>apply_opts_append\<close> above.
\<close>

theorem C8_options_in_order_last_cache_hit_wins:
  assumes "opts = pre @ ExecutionCacheHit True # post"
    and "\<forall>x \<in> set post. \<forall>b. x \<noteq> ExecutionCacheHit b"
    and "Result.Status res = CacheHitResultStatus"
    and "TestEnv_Set D e cmd opt res opts st = Returned cmdDg acDg cmd' st'"
  shows "\<exists>ar st1 sv ex1.
      apply_opts (digestOf D) opts
        \<lparr>ActionResult.ExitCode = ucast (Result.ExitCode res),
         OutputFiles = [], StdoutDigest = None, StderrDigest = None,
         StdoutRaw = [], StderrRaw = []\<rparr> (Server e) st = Some (ar, st1)
    \<and> deref (Servers st1) (Server e) = Some sv
    \<and> deref (Execs st1) (Exec sv) = Some ex1
    \<and> Cached ex1
    \<and> Set_switch D e res acDg ar
        (st1\<lparr>Execs := put_at (Execs st1) (Exec sv) (ex1\<lparr>ActionResult := Some ar\<rparr>)\<rparr>) = Some st'
    \<and> ActionCaches st' = ActionCaches st"
proof -
  from Set_Returned_D [OF assms(4)] obtain ar st1 sv ex1 where
    opts: "apply_opts (digestOf D) opts
        \<lparr>ActionResult.ExitCode = ucast (Result.ExitCode res),
         OutputFiles = [], StdoutDigest = None, StderrDigest = None,
         StdoutRaw = [], StderrRaw = []\<rparr> (Server e) st = Some (ar, st1)"
    and sv: "deref (Servers st1) (Server e) = Some sv"
    and ex1: "deref (Execs st1) (Exec sv) = Some ex1"
    and sw: "Set_switch D e res acDg ar
         (st1\<lparr>Execs := put_at (Execs st1) (Exec sv) (ex1\<lparr>ActionResult := Some ar\<rparr>)\<rparr>) = Some st'"
    by blast
  from apply_opts_last_ExecutionCacheHit [OF opts [unfolded assms(1)] assms(2)] sv ex1
  have c: "Cached ex1" by auto
  let ?st2 = "st1\<lparr>Execs := put_at (Execs st1) (Exec sv) (ex1\<lparr>ActionResult := Some ar\<rparr>)\<rparr>"
  have ex2: "deref (Execs ?st2) (Exec sv) = Some (ex1\<lparr>ActionResult := Some ar\<rparr>)"
    using ex1 by (simp add: deref_put_at_same)
  have sv2: "deref (Servers ?st2) (Server e) = Some sv"
    using sv by simp
  have "st' = ?st2"
    using Set_switch_CacheHit [OF assms(3) sv2 ex2, of D acDg ar] sw c by simp
  then have "ActionCaches st' = ActionCaches st"
    using apply_opts_frame [OF opts] by simp
  with opts sv ex1 c sw show ?thesis by blast
qed

theorem C8_witness:
  "[ExecutionCacheHit False, ExecutionCacheHit True, StdOutRaw ''hi''] =
     [ExecutionCacheHit False] @ ExecutionCacheHit True # [StdOutRaw ''hi'']
   \<and> Result.Status (example_res CacheHitResultStatus (Inr ''boom'')) = CacheHitResultStatus
   \<and> TestEnv_Set example_Deps example_TestEnv (example_cmd [''a''] 0) example_opt
         (example_res CacheHitResultStatus (Inr ''boom'')) [ExecutionCacheHit False, ExecutionCacheHit True, StdOutRaw ''hi''] example_Store =
       Returned example_cmdDg example_acDg ((example_cmd [''a''] 0)\<lparr>Command.ExecRoot := ''/''\<rparr>)
         (example_Store\<lparr>Execs := [example_Exec (Some (example_ar\<lparr>StdoutRaw := ''hi''\<rparr>)) None True []]\<rparr>)
   \<and> ActionCaches (example_Store\<lparr>Execs := [example_Exec (Some (example_ar\<lparr>StdoutRaw := ''hi''\<rparr>)) None True []]\<rparr>) =
       ActionCaches example_Store
   \<and> Cached (example_Exec (Some (example_ar\<lparr>StdoutRaw := ''hi''\<rparr>)) None True [])"
proof -
  have o: "[ExecutionCacheHit False, ExecutionCacheHit True, StdOutRaw ''hi''] =
     [ExecutionCacheHit False] @ ExecutionCacheHit True # [StdOutRaw ''hi'']"
    by simp
  have p: "\<forall>x \<in> set [StdOutRaw ''hi'']. \<forall>b. x \<noteq> ExecutionCacheHit b"
    by simp
  have s: "Result.Status (example_res CacheHitResultStatus (Inr ''boom'')) = CacheHitResultStatus"
    by (simp add: example_defs)
  have h: "TestEnv_Set example_Deps example_TestEnv (example_cmd [''a''] 0) example_opt
         (example_res CacheHitResultStatus (Inr ''boom'')) [ExecutionCacheHit False, ExecutionCacheHit True, StdOutRaw ''hi''] example_Store =
       Returned example_cmdDg example_acDg ((example_cmd [''a''] 0)\<lparr>Command.ExecRoot := ''/''\<rparr>)
         (example_Store\<lparr>Execs := [example_Exec (Some (example_ar\<lparr>StdoutRaw := ''hi''\<rparr>)) None True []]\<rparr>)"
    by (simp add: example_defs eval_defs)
  have g: "ActionCaches (example_Store\<lparr>Execs := [example_Exec (Some (example_ar\<lparr>StdoutRaw := ''hi''\<rparr>)) None True []]\<rparr>) =
       ActionCaches example_Store
   \<and> Cached (example_Exec (Some (example_ar\<lparr>StdoutRaw := ''hi''\<rparr>)) None True [])"
    by (simp add: example_defs)
  from C8_options_in_order_last_cache_hit_wins [OF o p s h]
  show ?thesis
    by - (intro conjI o s h g [THEN conjunct1] g [THEN conjunct2])
qed

theorem C8_counterexample:
  "ExecutionCacheHit True \<in> set [ExecutionCacheHit True, ExecutionCacheHit False]
   \<and> Result.Status (example_res CacheHitResultStatus (Inr ''boom'')) = CacheHitResultStatus
   \<and> TestEnv_Set example_Deps example_TestEnv (example_cmd [''a''] 0) example_opt
         (example_res CacheHitResultStatus (Inr ''boom'')) [ExecutionCacheHit True, ExecutionCacheHit False] example_Store =
       Returned example_cmdDg example_acDg ((example_cmd [''a''] 0)\<lparr>Command.ExecRoot := ''/''\<rparr>)
         (example_Store\<lparr>ActionCaches := [\<lparr>results = [example_acDg \<mapsto> example_ar]\<rparr>],
            Execs := [example_Exec (Some (example_ar)) None False []]\<rparr>)
   \<and> results (ActionCaches example_Store ! 0) example_acDg = None
   \<and> results (ActionCaches (example_Store\<lparr>ActionCaches := [\<lparr>results = [example_acDg \<mapsto> example_ar]\<rparr>],
            Execs := [example_Exec (Some (example_ar)) None False []]\<rparr>) ! 0) example_acDg = Some example_ar
   \<and> \<not> Cached (example_Exec (Some example_ar) None False [])"
  by (simp add: example_defs eval_defs)

subsection \<open>C9: the action digest does not depend on the result or the options\<close>

text \<open>
  Claim C9. Two returning calls of \<^verbatim>\<open>Set\<close> on the same command and the same
  execution options return the same action digest (and the same command digest),
  whatever the results, the options, the test environments and the stores of the two
  calls are: the \<^verbatim>\<open>Action\<close> is built and digested from the command and
  \<^verbatim>\<open>opt.DoNotCache\<close> alone, and an \<^verbatim>\<open>Apply\<close> method has no access to it.
\<close>

theorem C9_action_digest_independent_of_res_and_opts:
  assumes "TestEnv_Set D e1 cmd opt res1 opts1 st1 = Returned cmdDg1 acDg1 cmd1 st1'"
    and "TestEnv_Set D e2 cmd opt res2 opts2 st2 = Returned cmdDg2 acDg2 cmd2 st2'"
  shows "acDg1 = acDg2 \<and> cmdDg1 = cmdDg2"
  using Set_Returned_D [OF assms(1)] Set_Returned_D [OF assms(2)]
  by auto

theorem C9_witness:
  "TestEnv_Set example_Deps example_TestEnv (example_cmd [''a''] 0) example_opt
         (example_res CacheHitResultStatus (Inr ''boom'')) [StdOutRaw ''hi''] example_Store =
       Returned example_cmdDg example_acDg ((example_cmd [''a''] 0)\<lparr>Command.ExecRoot := ''/''\<rparr>)
         (example_Store\<lparr>ActionCaches := [\<lparr>results = [example_acDg \<mapsto> example_ar\<lparr>StdoutRaw := ''hi''\<rparr>]\<rparr>],
            Execs := [example_Exec (Some (example_ar\<lparr>StdoutRaw := ''hi''\<rparr>)) None False []]\<rparr>)
   \<and> TestEnv_Set example_Deps example_TestEnv (example_cmd [''a''] 0) example_opt
         (example_res TimeoutResultStatus (Inr ''boom'')) [] example_Store =
       Returned example_cmdDg example_acDg ((example_cmd [''a''] 0)\<lparr>Command.ExecRoot := ''/''\<rparr>)
         (example_Store\<lparr>Execs := [example_Exec (Some example_ar) (Some \<lparr>Code = DeadlineExceeded, Message = ''timeout''\<rparr>) False []]\<rparr>)"
proof -
  have a: "TestEnv_Set example_Deps example_TestEnv (example_cmd [''a''] 0) example_opt
         (example_res CacheHitResultStatus (Inr ''boom'')) [StdOutRaw ''hi''] example_Store =
       Returned example_cmdDg example_acDg ((example_cmd [''a''] 0)\<lparr>Command.ExecRoot := ''/''\<rparr>)
         (example_Store\<lparr>ActionCaches := [\<lparr>results = [example_acDg \<mapsto> example_ar\<lparr>StdoutRaw := ''hi''\<rparr>]\<rparr>],
            Execs := [example_Exec (Some (example_ar\<lparr>StdoutRaw := ''hi''\<rparr>)) None False []]\<rparr>)"
    by (simp add: example_defs eval_defs)
  have b: "TestEnv_Set example_Deps example_TestEnv (example_cmd [''a''] 0) example_opt
         (example_res TimeoutResultStatus (Inr ''boom'')) [] example_Store =
       Returned example_cmdDg example_acDg ((example_cmd [''a''] 0)\<lparr>Command.ExecRoot := ''/''\<rparr>)
         (example_Store\<lparr>Execs := [example_Exec (Some example_ar) (Some \<lparr>Code = DeadlineExceeded, Message = ''timeout''\<rparr>) False []]\<rparr>)"
    by (simp add: example_defs eval_defs)
  from C9_action_digest_independent_of_res_and_opts [OF a b] show ?thesis
    by - (intro conjI a b)
qed

subsection \<open>C10: Set defaults the command in place\<close>

text \<open>
  Claim C10. \<^verbatim>\<open>Set\<close> changes the command it is given: when it returns, the
  caller's command is the defaulted one, \<^verbatim>\<open>FillDefaultFieldValues\<close> applied to the
  command as passed, the returned command digest is the digest of the wire message of
  that defaulted command, and wherever defaulting changes the command the caller
  finds it changed.
\<close>

theorem C10_command_is_defaulted_in_place:
  assumes "TestEnv_Set D e cmd opt res opts st = Returned cmdDg acDg cmd' st'"
  shows "cmd' = FillDefaultFieldValues D cmd
    \<and> cmdDg = TestNewFromMessage D (CommandMsg (ToREProto D (FillDefaultFieldValues D cmd)))
    \<and> (FillDefaultFieldValues D cmd \<noteq> cmd \<longrightarrow> cmd' \<noteq> cmd)"
  using Set_Returned_D [OF assms] by auto

theorem C10_witness:
  "TestEnv_Set example_Deps example_TestEnv (example_cmd [''a''] 0) example_opt
         (example_res SuccessResultStatus (Inr ''boom'')) [] example_Store =
       Returned example_cmdDg example_acDg ((example_cmd [''a''] 0)\<lparr>Command.ExecRoot := ''/''\<rparr>)
         (example_Store\<lparr>Execs := [example_Exec (Some example_ar) None False []]\<rparr>)
   \<and> FillDefaultFieldValues example_Deps (example_cmd [''a''] 0) = (example_cmd [''a''] 0)\<lparr>Command.ExecRoot := ''/''\<rparr>
   \<and> (example_cmd [''a''] 0)\<lparr>Command.ExecRoot := ''/''\<rparr> \<noteq> example_cmd [''a''] 0
   \<and> example_cmdDg =
       TestNewFromMessage example_Deps (CommandMsg (ToREProto example_Deps
         (FillDefaultFieldValues example_Deps (example_cmd [''a''] 0))))"
proof -
  have h: "TestEnv_Set example_Deps example_TestEnv (example_cmd [''a''] 0) example_opt
         (example_res SuccessResultStatus (Inr ''boom'')) [] example_Store =
       Returned example_cmdDg example_acDg ((example_cmd [''a''] 0)\<lparr>Command.ExecRoot := ''/''\<rparr>)
         (example_Store\<lparr>Execs := [example_Exec (Some example_ar) None False []]\<rparr>)"
    by (simp add: example_defs eval_defs)
  have g: "FillDefaultFieldValues example_Deps (example_cmd [''a''] 0) = (example_cmd [''a''] 0)\<lparr>Command.ExecRoot := ''/''\<rparr>
   \<and> (example_cmd [''a''] 0)\<lparr>Command.ExecRoot := ''/''\<rparr> \<noteq> example_cmd [''a''] 0
   \<and> example_cmdDg =
       TestNewFromMessage example_Deps (CommandMsg (ToREProto example_Deps
         (FillDefaultFieldValues example_Deps (example_cmd [''a''] 0))))"
    by (simp add: example_defs)
  from C10_command_is_defaulted_in_place [OF h] show ?thesis
    by - (intro conjI h g [THEN conjunct1] g [THEN conjunct2, THEN conjunct1]
        g [THEN conjunct2, THEN conjunct2])
qed

end
